theory Spec2Isabelle
  imports Complex_Main "HOL-Library.Sublist" "HOL-Library.Char_ord"
begin

section \<open>Strings\<close>

text \<open>
  Strings of the program are modelled as \<open>string\<close> holding the UTF-8 bytes of the text,
  so that \<open>includes\<close> (contiguous substring) agrees with the search on code points.
  \<open>toLowerCase\<close> covers the two alphabets the program's vocabularies are written in:
  ASCII \<open>A-Z\<close> and the Cyrillic block U+0400..U+042F (two bytes, lead byte \<open>0xD0\<close>);
  every other character is left as it is.
\<close>

definition lower_ascii :: "char \<Rightarrow> char" where
  "lower_ascii c =
     (if CHR ''A'' \<le> c \<and> c \<le> CHR ''Z'' then char_of (of_char c + (32::nat)) else c)"

fun toLowerCase :: "string \<Rightarrow> string" where
  "toLowerCase [] = []"
| "toLowerCase [c] = [lower_ascii c]"
| "toLowerCase (c # d # cs) =
     (if c = CHR 0xD0 \<and> CHR 0x90 \<le> d \<and> d \<le> CHR 0x9F
        then CHR 0xD0 # char_of (of_char d + (0x20::nat)) # toLowerCase cs
      else if c = CHR 0xD0 \<and> CHR 0xA0 \<le> d \<and> d \<le> CHR 0xAF
        then CHR 0xD1 # char_of (of_char d - (0x20::nat)) # toLowerCase cs
      else if c = CHR 0xD0 \<and> CHR 0x80 \<le> d \<and> d \<le> CHR 0x8F
        then CHR 0xD1 # char_of (of_char d + (0x10::nat)) # toLowerCase cs
      else lower_ascii c # toLowerCase (d # cs))"

text \<open>\<open>s.includes(pat)\<close>.\<close>

definition str_includes :: "string \<Rightarrow> string \<Rightarrow> bool" where
  "str_includes s pat = sublist pat s"

text \<open>The white space of \<open>trim\<close> and of the pattern \<open>\s\<close>, on ASCII.\<close>

definition isSpace :: "char \<Rightarrow> bool" where
  "isSpace c = (c \<in> {CHR '' '', CHR 0x09, CHR 0x0A, CHR 0x0B, CHR 0x0C, CHR 0x0D})"

definition trim :: "string \<Rightarrow> string" where
  "trim s = rev (dropWhile isSpace (rev (dropWhile isSpace s)))"

text \<open>\<open>s.split(c)\<close> for a one-character separator: always at least one part.\<close>

fun split :: "char \<Rightarrow> string \<Rightarrow> string list" where
  "split c [] = [[]]"
| "split c (x # xs) =
     (if x = c then [] # split c xs
      else (case split c xs of p # ps \<Rightarrow> (x # p) # ps | [] \<Rightarrow> [[x]]))"

section \<open>Numbers\<close>

text \<open>
  A JavaScript number is modelled as an exact rational or \<open>NaN\<close>. Rounding to the nearest
  double, overflow to an infinity and negative zero are outside the model: the values the
  program handles (ability scores, hit points, counters, dice) are small integers, on
  which the doubles are exact. Comparisons with \<open>NaN\<close> are false, arithmetic with
  \<open>NaN\<close> gives \<open>NaN\<close>.
\<close>

datatype number = Num rat | NaN

fun truthyNum :: "number \<Rightarrow> bool" where
  "truthyNum (Num x) = (x \<noteq> 0)"
| "truthyNum NaN = False"

fun num_add :: "number \<Rightarrow> number \<Rightarrow> number" where
  "num_add (Num a) (Num b) = Num (a + b)"
| "num_add _ _ = NaN"

fun num_sub :: "number \<Rightarrow> number \<Rightarrow> number" where
  "num_sub (Num a) (Num b) = Num (a - b)"
| "num_sub _ _ = NaN"

fun num_less :: "number \<Rightarrow> number \<Rightarrow> bool" where
  "num_less (Num a) (Num b) = (a < b)"
| "num_less _ _ = False"

fun num_le :: "number \<Rightarrow> number \<Rightarrow> bool" where
  "num_le (Num a) (Num b) = (a \<le> b)"
| "num_le _ _ = False"

fun Math_max :: "number \<Rightarrow> number \<Rightarrow> number" where
  "Math_max (Num a) (Num b) = Num (max a b)"
| "Math_max _ _ = NaN"

fun Math_min :: "number \<Rightarrow> number \<Rightarrow> number" where
  "Math_min (Num a) (Num b) = Num (min a b)"
| "Math_min _ _ = NaN"

fun Math_floor :: "number \<Rightarrow> number" where
  "Math_floor (Num a) = Num (of_int \<lfloor>a\<rfloor>)"
| "Math_floor NaN = NaN"

subsection \<open>Reading numbers from strings\<close>

definition isDigit :: "char \<Rightarrow> bool" where
  "isDigit c = (CHR ''0'' \<le> c \<and> c \<le> CHR ''9'')"

definition digitVal :: "char \<Rightarrow> nat" where
  "digitVal c = of_char c - 48"

definition decValue :: "string \<Rightarrow> nat" where
  "decValue ds = foldl (\<lambda>a c. 10 * a + digitVal c) 0 ds"

definition isHexDigit :: "char \<Rightarrow> bool" where
  "isHexDigit c = (isDigit c \<or> (CHR ''a'' \<le> c \<and> c \<le> CHR ''f'') \<or> (CHR ''A'' \<le> c \<and> c \<le> CHR ''F''))"

definition hexVal :: "char \<Rightarrow> nat" where
  "hexVal c = (if isDigit c then digitVal c
               else if CHR ''a'' \<le> c then of_char c - 87 else of_char c - 55)"

definition radixValue :: "nat \<Rightarrow> string \<Rightarrow> nat" where
  "radixValue r ds = foldl (\<lambda>a c. r * a + hexVal c) 0 ds"

text \<open>An optional sign in front of a literal.\<close>

definition takeSign :: "string \<Rightarrow> bool \<times> string" where
  "takeSign s = (case s of
       c # r \<Rightarrow> if c = CHR ''-'' then (True, r) else if c = CHR ''+'' then (False, r) else (False, s)
     | [] \<Rightarrow> (False, []))"

definition signed :: "bool \<Rightarrow> rat \<Rightarrow> rat" where
  "signed neg x = (if neg then - x else x)"

definition pow10 :: "int \<Rightarrow> rat" where
  "pow10 e = (if 0 \<le> e then 10 ^ nat e else 1 / 10 ^ nat (- e))"

text \<open>
  \<open>parseInt(s)\<close> with no radix: leading white space, a sign, \<open>0x\<close> for base 16, then the
  longest run of digits; \<open>NaN\<close> when there is none.
\<close>

definition parseInt :: "string \<Rightarrow> number" where
  "parseInt s =
     (let (neg, s2) = takeSign (dropWhile isSpace s);
          hex = (prefix ''0x'' s2 \<or> prefix ''0X'' s2);
          s3 = (if hex then drop 2 s2 else s2);
          ds = takeWhile (if hex then isHexDigit else isDigit) s3
      in if ds = [] then NaN
         else Num (signed neg (of_nat (if hex then radixValue 16 ds else decValue ds))))"

text \<open>
  A decimal literal: digits, an optional fraction, an optional exponent. \<open>decimalPrefix\<close>
  reads the longest such prefix (as \<open>parseFloat\<close> does); it returns the value and the
  rest of the string.
\<close>

definition decimalPrefix :: "string \<Rightarrow> (rat \<times> string) option" where
  "decimalPrefix s =
     (let (neg, u) = takeSign s;
          ip = takeWhile isDigit u;
          r1 = dropWhile isDigit u;
          hasDot = (r1 \<noteq> [] \<and> hd r1 = CHR ''.'');
          fp = (if hasDot then takeWhile isDigit (tl r1) else []);
          r2 = (if hasDot then dropWhile isDigit (tl r1) else r1);
          hasE = (r2 \<noteq> [] \<and> (hd r2 = CHR ''e'' \<or> hd r2 = CHR ''E''));
          (eneg, x) = (if hasE then takeSign (tl r2) else (False, []));
          ed = takeWhile isDigit x;
          useE = (hasE \<and> ed \<noteq> []);
          ex = (if useE then (if eneg then - int (decValue ed) else int (decValue ed)) else 0);
          rest = (if useE then dropWhile isDigit x else r2);
          mant = of_nat (decValue ip) + of_nat (decValue fp) / 10 ^ length fp
      in if ip = [] \<and> fp = [] then None
         else Some (signed neg (mant * pow10 ex), rest))"

text \<open>
  \<open>parseFloat(s)\<close>. The literal \<open>Infinity\<close> is not modelled (it reads as \<open>NaN\<close>).
\<close>

definition parseFloat :: "string \<Rightarrow> number" where
  "parseFloat s = (case decimalPrefix (dropWhile isSpace s) of
       None \<Rightarrow> NaN | Some (v, rest) \<Rightarrow> Num v)"

text \<open>
  \<open>Number(s)\<close> on a string: the whole trimmed string must be a numeric literal; the
  empty string is 0; \<open>0x\<close>, \<open>0o\<close> and \<open>0b\<close> introduce other bases. The literal
  \<open>Infinity\<close> is not modelled (it reads as \<open>NaN\<close>; the program only converts
  lower-cased strings, on which JavaScript gives \<open>NaN\<close> too).
\<close>

definition radixLiteral :: "nat \<Rightarrow> (char \<Rightarrow> bool) \<Rightarrow> string \<Rightarrow> number" where
  "radixLiteral r ok ds = (if ds \<noteq> [] \<and> list_all ok ds then Num (of_nat (radixValue r ds)) else NaN)"

definition Number_of_string :: "string \<Rightarrow> number" where
  "Number_of_string s =
     (let t = trim s in
      if t = [] then Num 0
      else if prefix ''0x'' t \<or> prefix ''0X'' t then radixLiteral 16 isHexDigit (drop 2 t)
      else if prefix ''0o'' t \<or> prefix ''0O'' t
        then radixLiteral 8 (\<lambda>c. CHR ''0'' \<le> c \<and> c \<le> CHR ''7'') (drop 2 t)
      else if prefix ''0b'' t \<or> prefix ''0B'' t
        then radixLiteral 2 (\<lambda>c. c = CHR ''0'' \<or> c = CHR ''1'') (drop 2 t)
      else (case decimalPrefix t of
              Some (v, []) \<Rightarrow> Num v
            | _ \<Rightarrow> NaN))"

subsection \<open>Printing numbers\<close>

text \<open>
  \<open>String(x)\<close> for a number is modelled as the positional decimal notation, which is
  what JavaScript prints for magnitudes from \<open>1e-6\<close> up to \<open>1e21\<close>.
\<close>

definition digitChar :: "nat \<Rightarrow> char" where
  "digitChar n = char_of (48 + n)"

fun digitsOf :: "nat \<Rightarrow> string" where
  "digitsOf n = (if n < 10 then [digitChar n] else digitsOf (n div 10) @ [digitChar (n mod 10)])"

declare digitsOf.simps [simp del]

fun fracDigits :: "nat \<Rightarrow> rat \<Rightarrow> string" where
  "fracDigits 0 f = []"
| "fracDigits (Suc fuel) f =
     (if f = 0 then []
      else digitChar (nat \<lfloor>10 * f\<rfloor>) # fracDigits fuel (10 * f - of_int \<lfloor>10 * f\<rfloor>))"

definition numToString :: "rat \<Rightarrow> string" where
  "numToString x =
     (let a = \<bar>x\<bar>; ip = nat \<lfloor>a\<rfloor>; f = a - of_nat ip
      in (if x < 0 then ''-'' else []) @ digitsOf ip
         @ (if f = 0 then [] else CHR ''.'' # fracDigits (nat (snd (quotient_of f))) f))"

section \<open>Untyped values\<close>

text \<open>
  The payload of the narrative service and the \<open>mechanics\<close> annotation of an item are
  untyped JSON data. \<open>JUndef\<close> is what reading a missing property gives. An object is
  the list of its own properties.
\<close>

datatype jsval =
    JUndef
  | JNull
  | JBool bool
  | JNum rat
  | JStr string
  | JArr "jsval list"
  | JObj "(string \<times> jsval) list"

datatype js_error = TypeError

fun truthy :: "jsval \<Rightarrow> bool" where
  "truthy JUndef = False"
| "truthy JNull = False"
| "truthy (JBool b) = b"
| "truthy (JNum x) = (x \<noteq> 0)"
| "truthy (JStr s) = (s \<noteq> [])"
| "truthy (JArr xs) = True"
| "truthy (JObj kvs) = True"

text \<open>\<open>typeof v === 'object'\<close>: true of \<open>null\<close>, arrays and objects.\<close>

fun typeofObject :: "jsval \<Rightarrow> bool" where
  "typeofObject JNull = True"
| "typeofObject (JArr xs) = True"
| "typeofObject (JObj kvs) = True"
| "typeofObject _ = False"

fun isArray :: "jsval \<Rightarrow> bool" where
  "isArray (JArr xs) = True"
| "isArray _ = False"

text \<open>
  \<open>v.k\<close> for a value that is neither \<open>null\<close> nor \<open>undefined\<close>, and one of the property
  names the program reads (none is a built-in property of strings or arrays).
\<close>

fun getProp :: "jsval \<Rightarrow> string \<Rightarrow> jsval" where
  "getProp (JObj kvs) k = (case map_of kvs k of Some v \<Rightarrow> v | None \<Rightarrow> JUndef)"
| "getProp _ k = JUndef"

text \<open>\<open>v.k\<close> in general: reading a property of \<open>null\<close> or \<open>undefined\<close> throws.\<close>

fun propOrThrow :: "jsval \<Rightarrow> string \<Rightarrow> js_error + jsval" where
  "propOrThrow JUndef k = Inl TypeError"
| "propOrThrow JNull k = Inl TypeError"
| "propOrThrow v k = Inr (getProp v k)"

fun joinComma :: "string list \<Rightarrow> string" where
  "joinComma [] = []"
| "joinComma [s] = s"
| "joinComma (s # t # ss) = s @ CHR '','' # joinComma (t # ss)"

text \<open>\<open>String(v)\<close>.\<close>

fun String_of :: "jsval \<Rightarrow> string" where
  "String_of JUndef = ''undefined''"
| "String_of JNull = ''null''"
| "String_of (JBool b) = (if b then ''true'' else ''false'')"
| "String_of (JNum x) = numToString x"
| "String_of (JStr s) = s"
| "String_of (JArr xs) =
     joinComma (map (\<lambda>v. if v = JNull \<or> v = JUndef then [] else String_of v) xs)"
| "String_of (JObj kvs) = ''[object Object]''"

subsection \<open>Coercions of \<open>utils.ts\<close>\<close>

text \<open>\<open>coerceNumber(val, fallback)\<close>; \<open>None\<close> is \<open>undefined\<close>.\<close>

fun coerceNumber :: "jsval \<Rightarrow> number option \<Rightarrow> number option" where
  "coerceNumber JUndef fallback = fallback"
| "coerceNumber JNull fallback = fallback"
| "coerceNumber (JNum x) fallback = Some (Num x)"
| "coerceNumber (JStr s) fallback =
     (case parseFloat s of NaN \<Rightarrow> fallback | Num x \<Rightarrow> Some (Num x))"
| "coerceNumber _ fallback = fallback"

fun coerceString :: "jsval \<Rightarrow> string \<Rightarrow> string" where
  "coerceString JUndef fallback = fallback"
| "coerceString JNull fallback = fallback"
| "coerceString (JStr s) fallback = s"
| "coerceString v fallback = String_of v"

subsection \<open>Modifiers, lenient parsing and \<open>||\<close>\<close>

definition getModifier :: "number \<Rightarrow> number" where
  "getModifier score = (case score of Num s \<Rightarrow> Num (of_int \<lfloor>(s - 10) / 2\<rfloor>) | NaN \<Rightarrow> NaN)"

definition getProficiencyBonus :: "number \<Rightarrow> number" where
  "getProficiencyBonus lvl = (case lvl of Num l \<Rightarrow> Num (of_int \<lfloor>(l - 1) / 4\<rfloor> + 2) | NaN \<Rightarrow> NaN)"

text \<open>
  \<open>lenientParse\<close>. \<open>JSON.parse\<close> belongs to the runtime, not to the program: it is a
  parameter, \<open>None\<close> when it throws. A second try replaces single quotes by double
  quotes; when both throw the result is \<open>null\<close>.
\<close>

definition lenientParse :: "(string \<Rightarrow> jsval option) \<Rightarrow> string \<Rightarrow> jsval" where
  "lenientParse JSON_parse s =
     (case JSON_parse s of
        Some v \<Rightarrow> v
      | None \<Rightarrow>
          (case JSON_parse (map (\<lambda>c. if c = CHR 0x27 then CHR 0x22 else c) s) of
             Some v \<Rightarrow> v
           | None \<Rightarrow> JNull))"

text \<open>\<open>a || b\<close> on values and on numbers.\<close>

definition jsOr :: "jsval \<Rightarrow> jsval \<Rightarrow> jsval" where
  "jsOr a b = (if truthy a then a else b)"

definition numOr :: "number \<Rightarrow> number \<Rightarrow> number" where
  "numOr a b = (if truthyNum a then a else b)"

section \<open>Data model (\<open>types.ts\<close>)\<close>

text \<open>
  An optional property of an object is absent, present with the value \<open>undefined\<close>, or
  present with a value. Reading an absent property gives \<open>undefined\<close>; the difference
  shows when objects are spread into one another, where only present properties overwrite.
\<close>

datatype 'a field = Absent | Undefined | Val 'a

fun fieldTruthy :: "bool field \<Rightarrow> bool" where
  "fieldTruthy (Val b) = b"
| "fieldTruthy _ = False"

fun readField :: "jsval field \<Rightarrow> jsval" where
  "readField (Val v) = v"
| "readField _ = JUndef"

datatype category = Weapon | Armor | Consumable | Misc | Ammo

text \<open>
  \<open>InventoryItem\<close>; \<open>category\<close> is its property \<open>type\<close>. The \<open>mechanics\<close> annotation is
  kept as the narrative service sent it (a string or structured data).
\<close>

record item =
  name :: string
  category :: category
  description :: "string field"
  mechanics :: "jsval field"
  quantity :: number
  equipped :: "bool field"

record attributes =
  str :: number
  dex :: number
  con :: number
  int_attr :: number
  wis :: number
  cha :: number

record slot =
  current :: number
  maximum :: number

record hitDice = slot +
  face :: string

record deathSaves =
  successes :: number
  failures :: number

text \<open>
  \<open>Character\<close>. \<open>level\<close> and \<open>xp\<close> can hold \<open>undefined\<close> (\<open>None\<close>) after a merge, see
  \<open>normalizeAIResponse\<close>. A feature is a pair of its name and description, a spell-slot
  pool is listed under its level label.
\<close>

record character =
  char_name :: string
  race :: string
  char_class :: string
  level :: "number option"
  xp :: "number option"
  hp :: number
  maxHp :: number
  ac :: number
  attributes :: attributes
  inventory :: "item list"
  skills :: "string list"
  savingThrows :: "string list"
  features :: "(string \<times> string) list"
  conditions :: "string list"
  gold :: number
  hitDice :: hitDice
  spellSlots :: "(string \<times> slot) list"
  deathSaves :: deathSaves

section \<open>Session state (\<open>types.ts\<close>)\<close>

datatype phase = WorldCreation | CharacterCreation | Intro | Gameplay | Levelup | Gameover

text \<open>\<open>WorldData\<close>; a merge can leave any of its properties \<open>undefined\<close> (\<open>None\<close>).\<close>

record world =
  world_name :: "string option"
  genre :: "string option"
  world_description :: "string option"
  currencyLabel :: "string option"
  combatState :: "string option"

text \<open>\<open>CheckRequest\<close>, as \<open>normalizeCheck\<close> builds it.\<close>

record checkRequest =
  attribute :: string
  difficulty :: number
  dice :: string
  reason :: string
  successRisk :: string
  failRisk :: string
  isAttack :: bool
  isSave :: bool
  damageDice :: "string option"

datatype role = User | Model | System | RollResult

datatype rollType = Normal | Adv | Dis

record rollMeta =
  meta_roll :: number
  meta_rolls :: "number list"
  meta_mod :: number
  meta_total :: number
  meta_dc :: number
  meta_attr :: string
  meta_success :: bool
  meta_reason :: string
  meta_dice :: string
  meta_isAttack :: bool
  meta_damageDice :: "string option"
  meta_successLabel :: string
  meta_failLabel :: string
  meta_rollType :: rollType

record logEntry =
  entry_id :: string
  role :: role
  entry_text :: string
  timestamp :: nat
  meta :: "rollMeta option"

text \<open>\<open>GameState\<close>.\<close>

record state =
  phase :: phase
  world :: "world option"
  character :: "character option"
  history :: "logEntry list"
  currentOptions :: "string list"
  pendingCheck :: "checkRequest option"
  levelUpChoices :: "(string \<times> string) list option"

section \<open>Constants (\<open>constants.ts\<close>)\<close>

definition DUMMY_CHAR :: character where
  "DUMMY_CHAR = \<lparr>char_name = ''...'', race = ''-'', char_class = ''-'',
      level = Some (Num 1), xp = Some (Num 0), hp = Num 10, maxHp = Num 10, ac = Num 10,
      attributes = \<lparr>str = Num 10, dex = Num 10, con = Num 10, int_attr = Num 10,
                    wis = Num 10, cha = Num 10\<rparr>,
      inventory = [], skills = [], savingThrows = [], features = [], conditions = [],
      gold = Num 0,
      hitDice = \<lparr>current = Num 1, maximum = Num 1, face = ''1d8''\<rparr>,
      spellSlots = [],
      deathSaves = \<lparr>successes = Num 0, failures = Num 0\<rparr>\<rparr>"

definition INITIAL_GAME_STATE :: state where
  "INITIAL_GAME_STATE = \<lparr>phase = WorldCreation, world = None, character = None, history = [],
      currentOptions = [], pendingCheck = None, levelUpChoices = None\<rparr>"

section \<open>Dice (\<open>utils.ts\<close>)\<close>

text \<open>
  The random source is the sequence of values \<open>Math.random()\<close> returns during one call,
  each meant to lie in \<open>[0, 1)\<close>. A single d20 roll is \<open>Math.floor(Math.random() * 20) + 1\<close>.
\<close>

definition dieRoll :: "rat \<Rightarrow> rat \<Rightarrow> rat" where
  "dieRoll u faces = of_int \<lfloor>u * faces\<rfloor> + 1"

definition d20 :: "(nat \<Rightarrow> rat) \<Rightarrow> number" where
  "d20 rnd = Num (dieRoll (rnd 0) 20)"

text \<open>The loop \<open>for (let i = 0; i < count; i++) total += ...\<close>, on the running total.\<close>

function rollLoop :: "(nat \<Rightarrow> rat) \<Rightarrow> rat \<Rightarrow> rat \<Rightarrow> nat \<Rightarrow> rat \<Rightarrow> rat" where
  "rollLoop rnd faces count i tot =
     (if of_nat i < count then rollLoop rnd faces count (i + 1) (tot + dieRoll (rnd i) faces)
      else tot)"
  by pat_completeness auto
termination
proof (relation "measure (\<lambda>(rnd, faces, count, i, tot). nat \<lceil>count\<rceil> - i)")
  show "wf (measure (\<lambda>(rnd, faces, count, i, tot). nat \<lceil>count :: rat\<rceil> - i))"
    by simp
next
  fix rnd :: "nat \<Rightarrow> rat" and faces count tot :: rat and i :: nat
  assume "of_nat i < count"
  then have "int i < \<lceil>count\<rceil>"
    by (simp add: less_ceiling_iff)
  then show "((rnd, faces, count, i + 1, tot + dieRoll (rnd i) faces), (rnd, faces, count, i, tot))
      \<in> measure (\<lambda>(rnd, faces, count, i, tot). nat \<lceil>count\<rceil> - i)"
    by simp
qed

declare rollLoop.simps [simp del]

text \<open>The count and the faces read from a cleaned expression; \<open>None\<close> is \<open>undefined\<close>.\<close>

definition cleanDice :: "string \<Rightarrow> string" where
  "cleanDice s = filter (\<lambda>c. \<not> isSpace c) (toLowerCase s)"

definition dicePart :: "string \<Rightarrow> string" where
  "dicePart s = hd (split (CHR ''+'') (cleanDice s))"

definition flatBonus :: "string \<Rightarrow> number" where
  "flatBonus s = (let parts = split (CHR ''+'') (cleanDice s)
                  in if 1 < length parts then parseInt (parts ! 1) else Num 0)"

definition diceCount :: "string \<Rightarrow> number" where
  "diceCount s = Number_of_string (hd (split (CHR ''d'') (dicePart s)))"

definition diceFaces :: "string \<Rightarrow> number option" where
  "diceFaces s = (let ns = split (CHR ''d'') (dicePart s)
                  in if 1 < length ns then Some (Number_of_string (ns ! 1)) else None)"

text \<open>
  \<open>parseAndRoll\<close>. The argument defaults to \<open>"1d20"\<close> when it is \<open>undefined\<close>. Nothing in
  the body throws, so the \<open>catch\<close> branch is never entered.
\<close>

definition parseAndRoll :: "(nat \<Rightarrow> rat) \<Rightarrow> jsval \<Rightarrow> number" where
  "parseAndRoll rnd arg =
     (case (if arg = JUndef then JStr ''1d20'' else arg) of
        JStr diceString \<Rightarrow>
          if diceString = [] then d20 rnd
          else
            (case (diceCount diceString, diceFaces diceString) of
               (Num count, Some (Num faces)) \<Rightarrow>
                 if count = 0 \<or> faces = 0 then d20 rnd
                 else num_add (Num (rollLoop rnd faces count 0 0)) (flatBonus diceString)
             | _ \<Rightarrow> d20 rnd)
      | _ \<Rightarrow> d20 rnd)"


section \<open>Response normalizer (\<open>utils.ts\<close>)\<close>

text \<open>
  \<open>Partial<Character>\<close>, the sanitized character update: \<open>None\<close> is a property the update
  does not carry. \<open>u_ac\<close>, \<open>u_level\<close> and \<open>u_xp\<close> can be carried with the value
  \<open>undefined\<close> (\<open>Some None\<close>), since \<open>coerceNumber\<close> has no fallback there. For
  \<open>u_attributes\<close>, \<open>None\<close> also stands for a carried \<open>undefined\<close>: the merge treats both alike.
\<close>

record attributesUpdate =
  au_str :: "number option"
  au_dex :: "number option"
  au_con :: "number option"
  au_int :: "number option"
  au_wis :: "number option"
  au_cha :: "number option"

record characterUpdate =
  u_name :: "string option"
  u_race :: "string option"
  u_class :: "string option"
  u_hp :: "number option"
  u_maxHp :: "number option"
  u_ac :: "number option option"
  u_gold :: "number option"
  u_level :: "number option option"
  u_xp :: "number option option"
  u_attributes :: "attributesUpdate option"
  u_inventory :: "item list option"
  u_conditions :: "string list option"
  u_skills :: "string list option"
  u_savingThrows :: "string list option"
  u_features :: "(string \<times> string) list option"
  u_hitDice :: "hitDice option"
  u_deathSaves :: "deathSaves option"
  u_spellSlots :: "(string \<times> slot) list option"

text \<open>\<open>AIResponse\<close>. A flag the response does not carry reads as false.\<close>

record response =
  narrative :: string
  options :: "string list"
  isGameOver :: bool
  isLevelUp :: bool
  validationError :: "string option"
  characterUpdate :: "characterUpdate option"
  worldUpdate :: "world option"
  check :: "checkRequest option"
  levelUpOptions :: "(string \<times> string) list option"

text \<open>\<open>coerceNumber\<close> with a fallback that is a number: the result is a number.\<close>

definition coerceNumberOr :: "jsval \<Rightarrow> number \<Rightarrow> number" where
  "coerceNumberOr v d = (case coerceNumber v (Some d) of Some n \<Rightarrow> n | None \<Rightarrow> d)"

text \<open>Running a throwing function over an array stops at the first throw.\<close>

fun mapThrow :: "('a \<Rightarrow> js_error + 'b) \<Rightarrow> 'a list \<Rightarrow> js_error + 'b list" where
  "mapThrow f [] = Inr []"
| "mapThrow f (x # xs) =
     (case f x of
        Inl e \<Rightarrow> Inl e
      | Inr y \<Rightarrow> (case mapThrow f xs of Inl e \<Rightarrow> Inl e | Inr ys \<Rightarrow> Inr (y # ys)))"

definition categoryOf :: "jsval \<Rightarrow> category" where
  "categoryOf t =
     (if t = JStr ''weapon'' then Weapon
      else if t = JStr ''armor'' then Armor
      else if t = JStr ''consumable'' then Consumable
      else if t = JStr ''ammo'' then Ammo
      else Misc)"

text \<open>One entry of \<open>normalizeInventory\<close>; reading \<open>item.name\<close> of \<open>null\<close> throws.\<close>

definition normalizeItem :: "jsval \<Rightarrow> js_error + item" where
  "normalizeItem raw =
     (case propOrThrow raw ''name'' of
        Inl e \<Rightarrow> Inl e
      | Inr rawName \<Rightarrow> Inr
          \<lparr>name = coerceString rawName ''Unknown Item'',
           category = categoryOf (getProp raw ''type''),
           description = (if truthy (getProp raw ''description'')
                          then Val (coerceString (getProp raw ''description'') [])
                          else Undefined),
           mechanics = Val (getProp raw ''mechanics''),
           quantity = numOr (coerceNumberOr (getProp raw ''quantity'') (Num 1)) (Num 1),
           equipped = Val (truthy (getProp raw ''equipped''))\<rparr>)"

definition normalizeInventory :: "jsval \<Rightarrow> js_error + item list" where
  "normalizeInventory rawItems =
     (case rawItems of JArr xs \<Rightarrow> mapThrow normalizeItem xs | _ \<Rightarrow> Inr [])"

definition normalizeAttr :: "jsval \<Rightarrow> string \<Rightarrow> number option" where
  "normalizeAttr rawAttrs k =
     (if getProp rawAttrs k \<noteq> JUndef then Some (coerceNumberOr (getProp rawAttrs k) (Num 10))
      else None)"

definition normalizeAttributes :: "jsval \<Rightarrow> attributesUpdate option" where
  "normalizeAttributes rawAttrs =
     (if \<not> truthy rawAttrs \<or> \<not> typeofObject rawAttrs then None
      else Some \<lparr>au_str = normalizeAttr rawAttrs ''str'', au_dex = normalizeAttr rawAttrs ''dex'',
                 au_con = normalizeAttr rawAttrs ''con'', au_int = normalizeAttr rawAttrs ''int'',
                 au_wis = normalizeAttr rawAttrs ''wis'', au_cha = normalizeAttr rawAttrs ''cha''\<rparr>)"

definition normalizeCheck :: "jsval \<Rightarrow> checkRequest option" where
  "normalizeCheck rawCheck =
     (if \<not> truthy rawCheck \<or> \<not> typeofObject rawCheck then None
      else Some
        \<lparr>attribute = coerceString (getProp rawCheck ''attribute'') ''dex'',
         difficulty = numOr (coerceNumberOr (getProp rawCheck ''difficulty'') (Num 10)) (Num 10),
         dice = coerceString (getProp rawCheck ''dice'') ''1d20'',
         reason = coerceString (getProp rawCheck ''reason'') ''Check'',
         successRisk = coerceString (getProp rawCheck ''successRisk'') ''Success'',
         failRisk = coerceString (getProp rawCheck ''failRisk'') ''Failure'',
         isAttack = truthy (getProp rawCheck ''isAttack''),
         isSave = truthy (getProp rawCheck ''isSave''),
         damageDice = (if truthy (getProp rawCheck ''damageDice'')
                       then Some (coerceString (getProp rawCheck ''damageDice'') [])
                       else None)\<rparr>)"

subsection \<open>Ammunition inference\<close>

text \<open>
  The Russian words of the two vocabularies: bow, pistol, rifle, crossbow; cartridge and
  the stem of arrow; and the name and description of the synthesized stack.
\<close>

definition ru_bow :: string where
  "ru_bow =
      [CHR 0xD0, CHR 0xBB, CHR 0xD1, CHR 0x83, CHR 0xD0, CHR 0xBA]"

definition ru_pistol :: string where
  "ru_pistol =
      [CHR 0xD0, CHR 0xBF, CHR 0xD0, CHR 0xB8, CHR 0xD1, CHR 0x81, CHR 0xD1, CHR 0x82,
       CHR 0xD0, CHR 0xBE, CHR 0xD0, CHR 0xBB, CHR 0xD0, CHR 0xB5, CHR 0xD1, CHR 0x82]"

definition ru_rifle :: string where
  "ru_rifle =
      [CHR 0xD0, CHR 0xB2, CHR 0xD0, CHR 0xB8, CHR 0xD0, CHR 0xBD, CHR 0xD1, CHR 0x82,
       CHR 0xD0, CHR 0xBE, CHR 0xD0, CHR 0xB2, CHR 0xD0, CHR 0xBA, CHR 0xD0, CHR 0xB0]"

definition ru_crossbow :: string where
  "ru_crossbow =
      [CHR 0xD0, CHR 0xB0, CHR 0xD1, CHR 0x80, CHR 0xD0, CHR 0xB1, CHR 0xD0, CHR 0xB0,
       CHR 0xD0, CHR 0xBB, CHR 0xD0, CHR 0xB5, CHR 0xD1, CHR 0x82]"

definition ru_cartridge :: string where
  "ru_cartridge =
      [CHR 0xD0, CHR 0xBF, CHR 0xD0, CHR 0xB0, CHR 0xD1, CHR 0x82, CHR 0xD1, CHR 0x80,
       CHR 0xD0, CHR 0xBE, CHR 0xD0, CHR 0xBD]"

definition ru_arrow :: string where
  "ru_arrow =
      [CHR 0xD1, CHR 0x81, CHR 0xD1, CHR 0x82, CHR 0xD1, CHR 0x80, CHR 0xD0, CHR 0xB5,
       CHR 0xD0, CHR 0xBB]"

definition ammoName :: string where
  "ammoName =
      [CHR 0xD0, CHR 0x9A, CHR 0xD0, CHR 0xBE, CHR 0xD0, CHR 0xBC, CHR 0xD0, CHR 0xBF,
       CHR 0xD0, CHR 0xBB, CHR 0xD0, CHR 0xB5, CHR 0xD0, CHR 0xBA, CHR 0xD1, CHR 0x82,
       CHR 0x20, CHR 0xD0, CHR 0xB1, CHR 0xD0, CHR 0xBE, CHR 0xD0, CHR 0xB5, CHR 0xD0,
       CHR 0xBF, CHR 0xD1, CHR 0x80, CHR 0xD0, CHR 0xB8, CHR 0xD0, CHR 0xBF, CHR 0xD0,
       CHR 0xB0, CHR 0xD1, CHR 0x81, CHR 0xD0, CHR 0xBE, CHR 0xD0, CHR 0xB2]"

definition ammoDescription :: string where
  "ammoDescription =
      [CHR 0xD0, CHR 0x91, CHR 0xD0, CHR 0xB0, CHR 0xD0, CHR 0xB7, CHR 0xD0, CHR 0xBE,
       CHR 0xD0, CHR 0xB2, CHR 0xD1, CHR 0x8B, CHR 0xD0, CHR 0xB9, CHR 0x20, CHR 0xD0,
       CHR 0xB1, CHR 0xD0, CHR 0xBE, CHR 0xD0, CHR 0xB5, CHR 0xD0, CHR 0xB7, CHR 0xD0,
       CHR 0xB0, CHR 0xD0, CHR 0xBF, CHR 0xD0, CHR 0xB0, CHR 0xD1, CHR 0x81, CHR 0x2C,
       CHR 0x20, CHR 0xD0, CHR 0xB4, CHR 0xD0, CHR 0xBE, CHR 0xD0, CHR 0xB1, CHR 0xD0,
       CHR 0xB0, CHR 0xD0, CHR 0xB2, CHR 0xD0, CHR 0xBB, CHR 0xD0, CHR 0xB5, CHR 0xD0,
       CHR 0xBD, CHR 0xD0, CHR 0xBD, CHR 0xD1, CHR 0x8B, CHR 0xD0, CHR 0xB9, CHR 0x20,
       CHR 0xD1, CHR 0x81, CHR 0xD0, CHR 0xB8, CHR 0xD1, CHR 0x81, CHR 0xD1, CHR 0x82,
       CHR 0xD0, CHR 0xB5, CHR 0xD0, CHR 0xBC, CHR 0xD0, CHR 0xBE, CHR 0xD0, CHR 0xB9,
       CHR 0x2E]"

definition isRangedName :: "string \<Rightarrow> bool" where
  "isRangedName nm =
     (let n = toLowerCase nm in
      str_includes n ''bow'' \<or> str_includes n ru_bow \<or> str_includes n ''gun''
      \<or> str_includes n ''rifle'' \<or> str_includes n ''pistol'' \<or> str_includes n ru_pistol
      \<or> str_includes n ru_rifle \<or> str_includes n ''crossbow'' \<or> str_includes n ru_crossbow)"

definition isAmmoItem :: "item \<Rightarrow> bool" where
  "isAmmoItem i =
     (category i = Ammo \<or> str_includes (toLowerCase (name i)) ''ammo''
      \<or> str_includes (toLowerCase (name i)) ru_cartridge
      \<or> str_includes (toLowerCase (name i)) ru_arrow)"

definition ammoStack :: item where
  "ammoStack = \<lparr>name = ammoName, category = Ammo, description = Val ammoDescription,
                 mechanics = Absent, quantity = Num 20, equipped = Absent\<rparr>"

definition ensureAmmo :: "item list \<Rightarrow> item list" where
  "ensureAmmo items =
     (let hasRanged = list_ex (\<lambda>i. isRangedName (name i)) items;
          hasAmmo = list_ex isAmmoItem items
      in if hasRanged \<and> \<not> hasAmmo then items @ [ammoStack] else items)"

subsection \<open>The character update\<close>

definition normalizeFeature :: "jsval \<Rightarrow> js_error + string \<times> string" where
  "normalizeFeature f =
     (case f of
        JStr s \<Rightarrow> Inr (s, [])
      | _ \<Rightarrow> (case propOrThrow f ''name'' of
                 Inl e \<Rightarrow> Inl e
               | Inr n \<Rightarrow> Inr (coerceString n ''Unknown'', coerceString (getProp f ''description'') [])))"

definition normalizeNamed :: "jsval \<Rightarrow> js_error + string \<times> string" where
  "normalizeNamed opt =
     (case propOrThrow opt ''name'' of
        Inl e \<Rightarrow> Inl e
      | Inr n \<Rightarrow> Inr (coerceString n [], coerceString (getProp opt ''description'') []))"

definition stringsOf :: "jsval \<Rightarrow> string list option" where
  "stringsOf v = (case v of JArr xs \<Rightarrow> Some (map (\<lambda>s. coerceString s []) xs) | _ \<Rightarrow> None)"

text \<open>
  \<open>Object.entries\<close> of a truthy value of type object: the properties of an object, the
  indexed elements of an array. Assigning \<open>slots[lvl]\<close> replaces an earlier entry of the
  same label. The order of the properties of an object is not modelled.
\<close>

definition entriesOf :: "jsval \<Rightarrow> (string \<times> jsval) list" where
  "entriesOf v = (case v of
       JObj kvs \<Rightarrow> kvs
     | JArr xs \<Rightarrow> zip (map digitsOf [0 ..< length xs]) xs
     | _ \<Rightarrow> [])"

fun assign :: "string \<Rightarrow> 'a \<Rightarrow> (string \<times> 'a) list \<Rightarrow> (string \<times> 'a) list" where
  "assign k v [] = [(k, v)]"
| "assign k v ((k', v') # kvs) = (if k = k' then (k, v) # kvs else (k', v') # assign k v kvs)"

definition normalizeSpellSlots :: "jsval \<Rightarrow> (string \<times> slot) list" where
  "normalizeSpellSlots raw =
     foldl (\<lambda>slots (lvl, val).
              if truthy val \<and> typeofObject val
              then assign lvl \<lparr>current = coerceNumberOr (getProp val ''current'') (Num 0),
                               maximum = coerceNumberOr (getProp val ''max'') (Num 0)\<rparr> slots
              else slots)
           [] (entriesOf raw)"

definition whenDefined :: "jsval \<Rightarrow> 'a \<Rightarrow> 'a option" where
  "whenDefined v x = (if v \<noteq> JUndef then Some x else None)"

text \<open>
  The sanitized update, given the inventory and the features, the two parts whose
  normalization can throw.
\<close>

definition buildCharacterUpdate ::
    "jsval \<Rightarrow> item list option \<Rightarrow> (string \<times> string) list option \<Rightarrow> characterUpdate" where
  "buildCharacterUpdate c items feats =
     \<lparr>u_name = whenDefined (getProp c ''name'') (coerceString (getProp c ''name'') []),
      u_race = whenDefined (getProp c ''race'') (coerceString (getProp c ''race'') []),
      u_class = whenDefined (getProp c ''class'') (coerceString (getProp c ''class'') []),
      u_hp = whenDefined (getProp c ''hp'')
                 (Math_max (Num 1) (coerceNumberOr (getProp c ''hp'') (Num 1))),
      u_maxHp = whenDefined (getProp c ''maxHp'')
                 (Math_max (Num 1) (coerceNumberOr (getProp c ''maxHp'') (Num 1))),
      u_ac = whenDefined (getProp c ''ac'') (coerceNumber (getProp c ''ac'') None),
      u_gold = whenDefined (getProp c ''gold'') (coerceNumberOr (getProp c ''gold'') (Num 0)),
      u_level = whenDefined (getProp c ''level'') (coerceNumber (getProp c ''level'') None),
      u_xp = whenDefined (getProp c ''xp'') (coerceNumber (getProp c ''xp'') None),
      u_attributes = (if truthy (getProp c ''attributes'')
           then normalizeAttributes (getProp c ''attributes'') else None),
      u_inventory = items,
      u_conditions = stringsOf (getProp c ''conditions''),
      u_skills = stringsOf (getProp c ''skills''),
      u_savingThrows = stringsOf (getProp c ''savingThrows''),
      u_features = feats,
      u_hitDice = (if truthy (getProp c ''hitDice'')
           then Some \<lparr>current = coerceNumberOr (getProp (getProp c ''hitDice'') ''current'') (Num 1),
                        maximum = coerceNumberOr (getProp (getProp c ''hitDice'') ''max'') (Num 1),
                        face = coerceString (getProp (getProp c ''hitDice'') ''face'') ''1d8''\<rparr>
           else None),
      u_deathSaves = (if truthy (getProp c ''deathSaves'')
           then Some \<lparr>successes = coerceNumberOr (getProp (getProp c ''deathSaves'') ''successes'') (Num 0),
                        failures = coerceNumberOr (getProp (getProp c ''deathSaves'') ''failures'') (Num 0)\<rparr>
           else None),
      u_spellSlots = (if truthy (getProp c ''spellSlots'') \<and> typeofObject (getProp c ''spellSlots'')
           then Some (normalizeSpellSlots (getProp c ''spellSlots'')) else None)\<rparr>"

definition inventoryUpdate :: "jsval \<Rightarrow> js_error + item list option" where
  "inventoryUpdate c =
     (if truthy (getProp c ''inventory'')
      then (case normalizeInventory (getProp c ''inventory'') of
              Inl e \<Rightarrow> Inl e | Inr items \<Rightarrow> Inr (Some (ensureAmmo items)))
      else Inr None)"

definition featuresUpdate :: "jsval \<Rightarrow> js_error + (string \<times> string) list option" where
  "featuresUpdate c =
     (case getProp c ''features'' of
        JArr fs \<Rightarrow> (case mapThrow normalizeFeature fs of
                      Inl e \<Rightarrow> Inl e | Inr xs \<Rightarrow> Inr (Some xs))
      | _ \<Rightarrow> Inr None)"

definition normalizeCharacterUpdate :: "jsval \<Rightarrow> js_error + characterUpdate" where
  "normalizeCharacterUpdate c =
     (case inventoryUpdate c of
        Inl e \<Rightarrow> Inl e
      | Inr items \<Rightarrow>
          (case featuresUpdate c of
             Inl e \<Rightarrow> Inl e
           | Inr feats \<Rightarrow> Inr (buildCharacterUpdate c items feats)))"

subsection \<open>\<open>normalizeAIResponse\<close>\<close>

definition truthyString :: "jsval \<Rightarrow> string option" where
  "truthyString v = (if truthy v then Some (coerceString v []) else None)"

definition invalidStructure :: response where
  "invalidStructure =
     \<lparr>narrative = ''Error: AI returned invalid data structure.'', options = [''Retry''],
      isGameOver = False, isLevelUp = False, validationError = None,
      characterUpdate = None, worldUpdate = None, check = None, levelUpOptions = None\<rparr>"

definition normalizeAIResponse :: "jsval \<Rightarrow> js_error + response" where
  "normalizeAIResponse raw =
     (if \<not> truthy raw \<or> \<not> typeofObject raw then Inr invalidStructure
      else
       (case (if truthy (getProp raw ''characterUpdate'') \<and> typeofObject (getProp raw ''characterUpdate'')
              then (case normalizeCharacterUpdate (getProp raw ''characterUpdate'') of
                      Inl e \<Rightarrow> Inl e | Inr u \<Rightarrow> Inr (Some u))
              else Inr None) of
          Inl e \<Rightarrow> Inl e
        | Inr cu \<Rightarrow>
       (case (case getProp raw ''levelUpOptions'' of
                JArr os \<Rightarrow> (case mapThrow normalizeNamed os of
                              Inl e \<Rightarrow> Inl e | Inr xs \<Rightarrow> Inr (Some xs))
              | _ \<Rightarrow> Inr None) of
          Inl e \<Rightarrow> Inl e
        | Inr lvl \<Rightarrow> Inr
            \<lparr>narrative = coerceString (getProp raw ''narrative'') ''...'',
             options = (case stringsOf (getProp raw ''options'') of Some os \<Rightarrow> os | None \<Rightarrow> []),
             isGameOver = truthy (getProp raw ''isGameOver''),
             isLevelUp = truthy (getProp raw ''isLevelUp''),
             validationError = truthyString (getProp raw ''validationError''),
             characterUpdate = cu,
             worldUpdate =
               (let w = getProp raw ''worldUpdate'' in
                if truthy w \<and> typeofObject w
                then Some \<lparr>world_name = truthyString (getProp w ''name''),
                           genre = truthyString (getProp w ''genre''),
                           world_description = truthyString (getProp w ''description''),
                           currencyLabel = truthyString (getProp w ''currencyLabel''),
                           combatState = truthyString (getProp w ''combatState'')\<rparr>
                else None),
             check = (if truthy (getProp raw ''check'') then normalizeCheck (getProp raw ''check'')
                      else None),
             levelUpOptions = lvl\<rparr>)))"

section \<open>Rules engine: armor class (\<open>gameRules.ts\<close>)\<close>

text \<open>
  The \<open>stats\<close> of an item: \<open>lenientParse(mechStr) || {}\<close>. A string annotation is parsed;
  any other annotation is printed by \<open>JSON.stringify(item.mechanics || {})\<close> and parsed
  back, which on JSON data returns the value printed.
\<close>

definition itemStats :: "(string \<Rightarrow> jsval option) \<Rightarrow> item \<Rightarrow> jsval" where
  "itemStats JSON_parse it =
     (let m = readField (mechanics it);
          parsed = (case m of JStr s \<Rightarrow> lenientParse JSON_parse s | _ \<Rightarrow> jsOr m (JObj []))
      in jsOr parsed (JObj []))"

text \<open>The Russian words of the armor vocabulary: shield, heavy, medium (word stems).\<close>

definition ru_shield :: string where
  "ru_shield = [CHR 0xD1, CHR 0x89, CHR 0xD0, CHR 0xB8, CHR 0xD1, CHR 0x82]"

definition ru_heavy :: string where
  "ru_heavy = [CHR 0xD1, CHR 0x82, CHR 0xD1, CHR 0x8F, CHR 0xD0, CHR 0xB6, CHR 0xD0, CHR 0xB5, CHR 0xD0, CHR 0xBB]"

definition ru_medium :: string where
  "ru_medium = [CHR 0xD1, CHR 0x81, CHR 0xD1, CHR 0x80, CHR 0xD0, CHR 0xB5, CHR 0xD0, CHR 0xB4, CHR 0xD0, CHR 0xBD]"

definition nameIsShield :: "string \<Rightarrow> bool" where
  "nameIsShield n = (str_includes (toLowerCase n) ''shield'' \<or> str_includes (toLowerCase n) ru_shield)"

text \<open>
  The body of the loop over the inventory, on the pair \<open>(baseAc, shieldBonus)\<close>. The
  variable \<open>hasArmor\<close> of the source is written and never read. Calling \<open>toLowerCase\<close> on
  a declared type that is not a string throws.
\<close>

definition armorStep ::
    "(string \<Rightarrow> jsval option) \<Rightarrow> number \<Rightarrow> item \<Rightarrow> number \<times> number \<Rightarrow> js_error + number \<times> number" where
  "armorStep JSON_parse dexMod it acc =
     (case acc of (baseAc, shieldBonus) \<Rightarrow>
      if \<not> fieldTruthy (equipped it) then Inr acc
      else
        let stats = itemStats JSON_parse it in
        if category it = Armor then
          let isShield = (nameIsShield (name it) \<or> getProp stats ''type'' = JStr ''shield'') in
          if isShield then
            let bonus = jsOr (getProp stats ''ac'') (jsOr (getProp stats ''bonus'') (JNum 2))
            in Inr (baseAc, num_add shieldBonus (numOr (parseInt (String_of bonus)) (Num 2)))
          else if truthy (getProp stats ''ac'') then
            let armorVal = parseInt (String_of (getProp stats ''ac''))
            in (case jsOr (getProp stats ''type'') (JStr []) of
                  JStr t \<Rightarrow>
                    let ty = toLowerCase t in
                    if str_includes ty ''heavy'' \<or> str_includes ty ru_heavy
                      then Inr (armorVal, shieldBonus)
                    else if str_includes ty ''medium'' \<or> str_includes ty ru_medium
                      then Inr (num_add armorVal (Math_min (Num 2) dexMod), shieldBonus)
                    else Inr (num_add armorVal dexMod, shieldBonus)
                | _ \<Rightarrow> Inl TypeError)
          else Inr acc
        else Inr acc)"

fun armorLoop ::
    "(string \<Rightarrow> jsval option) \<Rightarrow> number \<Rightarrow> item list \<Rightarrow> number \<times> number \<Rightarrow> js_error + number \<times> number" where
  "armorLoop JSON_parse dexMod [] acc = Inr acc"
| "armorLoop JSON_parse dexMod (it # its) acc =
     (case armorStep JSON_parse dexMod it acc of
        Inl e \<Rightarrow> Inl e
      | Inr acc' \<Rightarrow> armorLoop JSON_parse dexMod its acc')"

definition calculateArmorClass :: "(string \<Rightarrow> jsval option) \<Rightarrow> character \<Rightarrow> js_error + number" where
  "calculateArmorClass JSON_parse char =
     (let dexMod = getModifier (dex (attributes char)) in
      case armorLoop JSON_parse dexMod (inventory char) (num_add (Num 10) dexMod, Num 0) of
        Inl e \<Rightarrow> Inl e
      | Inr (baseAc, shieldBonus) \<Rightarrow> Inr (num_add baseAc shieldBonus))"

subsection \<open>The armor class in the words of the specification\<close>

text \<open>
  An equipped armor-category item counts as a shield when its name or its declared type
  says so, and as body armor otherwise, provided it declares an AC value.
\<close>

definition countsAsShield :: "(string \<Rightarrow> jsval option) \<Rightarrow> item \<Rightarrow> bool" where
  "countsAsShield JSON_parse it =
     (fieldTruthy (equipped it) \<and> category it = Armor
      \<and> (nameIsShield (name it) \<or> getProp (itemStats JSON_parse it) ''type'' = JStr ''shield''))"







definition shieldBonusOf :: "(string \<Rightarrow> jsval option) \<Rightarrow> item \<Rightarrow> number" where
  "shieldBonusOf JSON_parse it =
     (let stats = itemStats JSON_parse it
      in numOr (parseInt (String_of (jsOr (getProp stats ''ac'') (jsOr (getProp stats ''bonus'') (JNum 2)))))
               (Num 2))"



section \<open>Request orchestration: the retry loop of \<open>callAI\<close>\<close>

text \<open>
  One attempt of \<open>ai.models.generateContent\<close> either returns a response or throws; the
  loop only reads the thrown value's message text (\<open>e.message || JSON.stringify(e)\<close>).
  The service is a function of the attempt number. The loop's result records what the
  caller sees (\<open>Inl\<close>: the error thrown out of the loop), how many times the service was
  called and the delays slept, in milliseconds, in order.
\<close>

datatype 'r attempt = Returned 'r | Threw string

record 'r retry_result =
  outcome :: "string + 'r"
  calls :: nat
  waited :: "nat list"

definition maxRetries :: nat where
  "maxRetries = 3"

definition isQuota :: "string \<Rightarrow> bool" where
  "isQuota e = (let msg = toLowerCase e in
     str_includes msg ''429'' \<or> str_includes msg ''resource_exhausted'' \<or> str_includes msg ''quota'')"

function retryLoop :: "(nat \<Rightarrow> 'r attempt) \<Rightarrow> nat \<Rightarrow> nat list \<Rightarrow> 'r retry_result" where
  "retryLoop generateContent attempt delays =
     (if attempt < maxRetries then
        (case generateContent attempt of
           Returned r \<Rightarrow> \<lparr>outcome = Inr r, calls = attempt + 1, waited = delays\<rparr>
         | Threw e \<Rightarrow>
             if isQuota e \<and> attempt < maxRetries - 1
             then retryLoop generateContent (attempt + 1)
                    (delays @ [2000 * 2 ^ (attempt + 1)])
             else \<lparr>outcome = Inl e, calls = attempt + 1, waited = delays\<rparr>)
      else \<lparr>outcome = Inl ''No response from AI'', calls = attempt, waited = delays\<rparr>)"
  by pat_completeness auto
termination
  by (relation "measure (\<lambda>(g, attempt, delays). maxRetries - attempt)")
     (auto simp: maxRetries_def)

definition callWithRetry :: "(nat \<Rightarrow> 'r attempt) \<Rightarrow> 'r retry_result" where
  "callWithRetry generateContent = retryLoop generateContent 0 []"

section \<open>Session state machine (\<open>useGameEngine.ts\<close>)\<close>

subsection \<open>Merging a normalized update\<close>

definition findIndex :: "('a \<Rightarrow> bool) \<Rightarrow> 'a list \<Rightarrow> nat option" where
  "findIndex P xs = (if list_ex P xs then Some (length (takeWhile (\<lambda>x. \<not> P x) xs)) else None)"

definition sameName :: "item \<Rightarrow> item \<Rightarrow> bool" where
  "sameName old newItem = (toLowerCase (trim (name old)) = toLowerCase (trim (name newItem)))"

text \<open>
  \<open>{...old, ...newItem, equipped: newItem.equipped !== undefined ? newItem.equipped : old.equipped}\<close>:
  the properties \<open>newItem\<close> carries overwrite those of \<open>old\<close>.
\<close>

definition spreadItem :: "item \<Rightarrow> item \<Rightarrow> item" where
  "spreadItem old newItem =
     \<lparr>name = name newItem,
      category = category newItem,
      description = (case description newItem of Absent \<Rightarrow> description old | d \<Rightarrow> d),
      mechanics = (case mechanics newItem of Absent \<Rightarrow> mechanics old | m \<Rightarrow> m),
      quantity = quantity newItem,
      equipped = (case equipped newItem of
                    Val b \<Rightarrow> Val b
                  | _ \<Rightarrow> (case equipped old of Val b \<Rightarrow> Val b | _ \<Rightarrow> Undefined))\<rparr>"

text \<open>The body of \<open>update.inventory.forEach\<close>; an entry with an empty name is skipped.\<close>

definition mergeItem :: "item list \<Rightarrow> item \<Rightarrow> item list" where
  "mergeItem mergedInventory newItem =
     (if name newItem = [] then mergedInventory
      else (case findIndex (\<lambda>old. sameName old newItem) mergedInventory of
              Some existingIndex \<Rightarrow>
                mergedInventory[existingIndex := spreadItem (mergedInventory ! existingIndex) newItem]
            | None \<Rightarrow> mergedInventory @ [newItem]))"

definition mergeInventory :: "item list \<Rightarrow> item list \<Rightarrow> item list" where
  "mergeInventory old update =
     filter (\<lambda>i. num_less (Num 0) (quantity i)) (foldl mergeItem old update)"

definition override :: "'a \<Rightarrow> 'a option \<Rightarrow> 'a" where
  "override old new = (case new of Some v \<Rightarrow> v | None \<Rightarrow> old)"

definition mergeAttributes :: "attributes \<Rightarrow> attributesUpdate option \<Rightarrow> attributes" where
  "mergeAttributes old upd =
     (case upd of
        None \<Rightarrow> old
      | Some a \<Rightarrow> \<lparr>str = override (str old) (au_str a), dex = override (dex old) (au_dex a),
                    con = override (con old) (au_con a), int_attr = override (int_attr old) (au_int a),
                    wis = override (wis old) (au_wis a), cha = override (cha old) (au_cha a)\<rparr>)"

text \<open>
  \<open>{...oldChar, ...update, attributes, gold, inventory, deathSaves}\<close>. The \<open>ac\<close> of the
  update is not copied: the caller overwrites it at once with the computed armor class.
\<close>

definition mergeCharacter :: "character \<Rightarrow> characterUpdate \<Rightarrow> character" where
  "mergeCharacter oldChar update =
     oldChar\<lparr>char_name := override (char_name oldChar) (u_name update),
             race := override (race oldChar) (u_race update),
             char_class := override (char_class oldChar) (u_class update),
             level := override (level oldChar) (u_level update),
             xp := override (xp oldChar) (u_xp update),
             hp := override (hp oldChar) (u_hp update),
             maxHp := override (maxHp oldChar) (u_maxHp update),
             attributes := mergeAttributes (attributes oldChar) (u_attributes update),
             inventory := (case u_inventory update of
                             Some items \<Rightarrow> mergeInventory (inventory oldChar) items
                           | None \<Rightarrow> inventory oldChar),
             skills := override (skills oldChar) (u_skills update),
             savingThrows := override (savingThrows oldChar) (u_savingThrows update),
             features := override (features oldChar) (u_features update),
             conditions := override (conditions oldChar) (u_conditions update),
             gold := override (gold oldChar) (u_gold update),
             hitDice := override (hitDice oldChar) (u_hitDice update),
             spellSlots := override (spellSlots oldChar) (u_spellSlots update),
             deathSaves := override (deathSaves oldChar) (u_deathSaves update)\<rparr>"

subsection \<open>Processing the reply of the narrative service (\<open>callAI\<close>)\<close>

fun String_num :: "number \<Rightarrow> string" where
  "String_num (Num x) = numToString x"
| "String_num NaN = ''NaN''"

definition txtDamagePrefix :: string where
  "txtDamagePrefix =
      [CHR 0xF0, CHR 0x9F, CHR 0x92, CHR 0x94, CHR 0x20, CHR 0xD0, CHR 0x9F, CHR 0xD0,
      CHR 0x9E, CHR 0xD0, CHR 0x9B, CHR 0xD0, CHR 0xA3, CHR 0xD0, CHR 0xA7, CHR 0xD0,
      CHR 0x95, CHR 0xD0, CHR 0x9D, CHR 0x20, CHR 0xD0, CHR 0xA3, CHR 0xD0, CHR 0xA0,
      CHR 0xD0, CHR 0x9E, CHR 0xD0, CHR 0x9D, CHR 0x3A, CHR 0x20, CHR 0x2D]"

definition txtWorldForms :: string where
  "txtWorldForms =
      [CHR 0xD0, CHR 0x9C, CHR 0xD0, CHR 0xB8, CHR 0xD1, CHR 0x80, CHR 0x20, CHR 0xD0,
      CHR 0xBE, CHR 0xD0, CHR 0xB1, CHR 0xD1, CHR 0x80, CHR 0xD0, CHR 0xB5, CHR 0xD1,
      CHR 0x82, CHR 0xD0, CHR 0xB0, CHR 0xD0, CHR 0xB5, CHR 0xD1, CHR 0x82, CHR 0x20,
      CHR 0xD1, CHR 0x84, CHR 0xD0, CHR 0xBE, CHR 0xD1, CHR 0x80, CHR 0xD0, CHR 0xBC,
      CHR 0xD1, CHR 0x83, CHR 0x2E, CHR 0x2E, CHR 0x2E]"

definition defaultOptions :: "string list" where
  "defaultOptions =
     [[CHR 0xD0, CHR 0x9F, CHR 0xD1, CHR 0x80, CHR 0xD0, CHR 0xBE, CHR 0xD0, CHR 0xB4,
      CHR 0xD0, CHR 0xBE, CHR 0xD0, CHR 0xBB, CHR 0xD0, CHR 0xB6, CHR 0xD0, CHR 0xB8,
      CHR 0xD1, CHR 0x82, CHR 0xD1, CHR 0x8C, CHR 0x2E, CHR 0x2E, CHR 0x2E],
      [CHR 0xD0, CHR 0x9E, CHR 0xD1, CHR 0x81, CHR 0xD0, CHR 0xBC, CHR 0xD0, CHR 0xBE,
      CHR 0xD1, CHR 0x82, CHR 0xD1, CHR 0x80, CHR 0xD0, CHR 0xB5, CHR 0xD1, CHR 0x82,
      CHR 0xD1, CHR 0x8C, CHR 0xD1, CHR 0x81, CHR 0xD1, CHR 0x8F],
      [CHR 0xD0, CHR 0x97, CHR 0xD0, CHR 0xB0, CHR 0xD0, CHR 0xB4, CHR 0xD0, CHR 0xB0,
      CHR 0xD1, CHR 0x82, CHR 0xD1, CHR 0x8C, CHR 0x20, CHR 0xD0, CHR 0xB2, CHR 0xD0,
      CHR 0xBE, CHR 0xD0, CHR 0xBF, CHR 0xD1, CHR 0x80, CHR 0xD0, CHR 0xBE, CHR 0xD1,
      CHR 0x81]]"

text \<open>
  What one turn ends in: an exception caught by \<open>callAI\<close> (a notice is shown, nothing is
  saved), the validation error shown (nothing is saved), the help text shown (nothing is
  saved), or the state passed to \<open>saveState\<close>, with the flag \<open>justFinishedCharCreation\<close>.
\<close>

datatype turnResult =
    Caught js_error
  | ValidationShown string
  | HelpShown string
  | Saved state bool

definition phaseAfter :: "phase \<Rightarrow> response \<Rightarrow> character option \<Rightarrow> phase" where
  "phaseAfter p0 r char =
     (let p1 = (if p0 = WorldCreation then CharacterCreation
                else if p0 = CharacterCreation then Intro
                else if p0 = Intro then Gameplay else p0);
          p2 = (if isLevelUp r then Levelup else p1);
          p3 = (if isGameOver r then Gameover else p2);
          p4 = (if p0 = Levelup \<and> \<not> isLevelUp r then Gameplay else p3)
      in (case char of
            Some c \<Rightarrow>
              if level c = Some (Num 1)
                 \<and> num_le (Num 300) (case xp c of Some x \<Rightarrow> numOr x (Num 0) | None \<Rightarrow> Num 0)
              then Levelup else p4
          | None \<Rightarrow> p4))"

text \<open>
  The part of \<open>callAI\<close> after \<open>JSON.parse\<close>: \<open>now\<close> is \<open>Date.now()\<close>, \<open>st\<close> the current
  state (\<open>stateRef.current\<close>, taken to be the same when the call starts and when the reply
  arrives), \<open>rawJson\<close> the parsed reply.
\<close>

definition historyWithDamage :: "nat \<Rightarrow> logEntry list \<Rightarrow> character \<Rightarrow> characterUpdate option \<Rightarrow> logEntry list" where
  "historyWithDamage now hist0 oldChar upd =
     (case upd of
        Some update \<Rightarrow>
          (case u_hp update of
             Some newHp \<Rightarrow>
               if num_less newHp (hp oldChar)
               then hist0 @ [\<lparr>entry_id = digitsOf now @ ''_dmg'', role = System,
                      entry_text = txtDamagePrefix @ String_num (num_sub (hp oldChar) newHp) @ '' HP'',
                      timestamp = now, meta = None\<rparr>]
               else hist0
           | None \<Rightarrow> hist0)
      | None \<Rightarrow> hist0)"

text \<open>The character after the merge, with the armor class recomputed.\<close>

definition mergedCharacter ::
    "(string \<Rightarrow> jsval option) \<Rightarrow> state \<Rightarrow> characterUpdate option \<Rightarrow> js_error + character option" where
  "mergedCharacter JSON_parse st upd =
     (let oldChar = (case character st of Some c \<Rightarrow> c | None \<Rightarrow> DUMMY_CHAR) in
      case upd of
        Some update \<Rightarrow>
          (case calculateArmorClass JSON_parse (mergeCharacter oldChar update) of
             Inl e \<Rightarrow> Inl e
           | Inr newAc \<Rightarrow> Inr (Some ((mergeCharacter oldChar update)\<lparr>ac := newAc\<rparr>)))
      | None \<Rightarrow> Inr (character st))"

definition narrativeTextOf :: "state \<Rightarrow> response \<Rightarrow> string" where
  "narrativeTextOf st jsonResponse =
     (if narrative jsonResponse \<noteq> [] then narrative jsonResponse
      else if phase st = Intro then txtWorldForms else ''...'')"

definition mergeResponse ::
    "(string \<Rightarrow> jsval option) \<Rightarrow> nat \<Rightarrow> logEntry list option \<Rightarrow> state \<Rightarrow> response \<Rightarrow> turnResult" where
  "mergeResponse JSON_parse now injectedHistory st jsonResponse =
     (case mergedCharacter JSON_parse st (characterUpdate jsonResponse) of
        Inl e \<Rightarrow> Caught e
      | Inr char1 \<Rightarrow>
          Saved
            \<lparr>phase = phaseAfter (phase st) jsonResponse char1,
             world = (case worldUpdate jsonResponse of Some w \<Rightarrow> Some w | None \<Rightarrow> world st),
             character = char1,
             history =
               historyWithDamage now
                 (case injectedHistory of Some h \<Rightarrow> h | None \<Rightarrow> history st)
                 (case character st of Some c \<Rightarrow> c | None \<Rightarrow> DUMMY_CHAR)
                 (characterUpdate jsonResponse)
               @ [\<lparr>entry_id = digitsOf now, role = Model,
                    entry_text = narrativeTextOf st jsonResponse, timestamp = now, meta = None\<rparr>],
             currentOptions =
               (case check jsonResponse of
                  Some c \<Rightarrow> []
                | None \<Rightarrow>
                    if options jsonResponse = []
                       \<and> phaseAfter (phase st) jsonResponse char1 = Gameplay
                    then defaultOptions else options jsonResponse),
             pendingCheck = check jsonResponse,
             levelUpChoices = (case levelUpOptions jsonResponse of
                                 Some l \<Rightarrow> Some l | None \<Rightarrow> levelUpChoices st)\<rparr>
            (phase st = CharacterCreation))"

definition processResponse ::
    "(string \<Rightarrow> jsval option) \<Rightarrow> nat \<Rightarrow> bool \<Rightarrow> logEntry list option \<Rightarrow> state \<Rightarrow> jsval \<Rightarrow> turnResult" where
  "processResponse JSON_parse now isHelpRequest injectedHistory st rawJson =
     (case normalizeAIResponse rawJson of
        Inl e \<Rightarrow> Caught e
      | Inr jsonResponse \<Rightarrow>
          (case validationError jsonResponse of
             Some (c # cs) \<Rightarrow> ValidationShown (c # cs)
           | _ \<Rightarrow>
               if isHelpRequest then HelpShown (narrative jsonResponse)
               else mergeResponse JSON_parse now injectedHistory st jsonResponse))"

subsection \<open>Resolving a check (\<open>handleRoll\<close>)\<close>

datatype attrKey = AStr | ADex | ACon | AInt | AWis | ACha

fun attrName :: "attrKey \<Rightarrow> string" where
  "attrName AStr = ''str''"
| "attrName ADex = ''dex''"
| "attrName ACon = ''con''"
| "attrName AInt = ''int''"
| "attrName AWis = ''wis''"
| "attrName ACha = ''cha''"

fun attrUpper :: "attrKey \<Rightarrow> string" where
  "attrUpper AStr = ''STR''"
| "attrUpper ADex = ''DEX''"
| "attrUpper ACon = ''CON''"
| "attrUpper AInt = ''INT''"
| "attrUpper AWis = ''WIS''"
| "attrUpper ACha = ''CHA''"

fun attrValueOf :: "attributes \<Rightarrow> attrKey \<Rightarrow> number" where
  "attrValueOf a AStr = str a"
| "attrValueOf a ADex = dex a"
| "attrValueOf a ACon = con a"
| "attrValueOf a AInt = int_attr a"
| "attrValueOf a AWis = wis a"
| "attrValueOf a ACha = cha a"

text \<open>\<open>SKILL_MAP\<close> of \<open>constants.ts\<close>, in the order of its entries.\<close>

definition SKILL_MAP :: "(string \<times> attrKey) list" where
  "SKILL_MAP =
     [(''athletics'', AStr),
      ([CHR 0xD0, CHR 0xB0, CHR 0xD1, CHR 0x82, CHR 0xD0, CHR 0xBB, CHR 0xD0, CHR 0xB5,
        CHR 0xD1, CHR 0x82, CHR 0xD0, CHR 0xB8, CHR 0xD0, CHR 0xBA, CHR 0xD0, CHR 0xB0], AStr),
      (''acrobatics'', ADex),
      ([CHR 0xD0, CHR 0xB0, CHR 0xD0, CHR 0xBA, CHR 0xD1, CHR 0x80, CHR 0xD0, CHR 0xBE,
        CHR 0xD0, CHR 0xB1, CHR 0xD0, CHR 0xB0, CHR 0xD1, CHR 0x82, CHR 0xD0, CHR 0xB8,
        CHR 0xD0, CHR 0xBA, CHR 0xD0, CHR 0xB0], ADex),
      (''stealth'', ADex),
      ([CHR 0xD1, CHR 0x81, CHR 0xD0, CHR 0xBA, CHR 0xD1, CHR 0x80, CHR 0xD1, CHR 0x8B,
        CHR 0xD1, CHR 0x82, CHR 0xD0, CHR 0xBD, CHR 0xD0, CHR 0xBE, CHR 0xD1, CHR 0x81,
        CHR 0xD1, CHR 0x82, CHR 0xD1, CHR 0x8C], ADex),
      (''sleight of hand'', ADex),
      ([CHR 0xD0, CHR 0xBB, CHR 0xD0, CHR 0xBE, CHR 0xD0, CHR 0xB2, CHR 0xD0, CHR 0xBA,
        CHR 0xD0, CHR 0xBE, CHR 0xD1, CHR 0x81, CHR 0xD1, CHR 0x82, CHR 0xD1, CHR 0x8C,
        CHR 0x20, CHR 0xD1, CHR 0x80, CHR 0xD1, CHR 0x83, CHR 0xD0, CHR 0xBA], ADex),
      (''investigation'', AInt),
      ([CHR 0xD0, CHR 0xB0, CHR 0xD0, CHR 0xBD, CHR 0xD0, CHR 0xB0, CHR 0xD0, CHR 0xBB,
        CHR 0xD0, CHR 0xB8, CHR 0xD0, CHR 0xB7], AInt),
      ([CHR 0xD1, CHR 0x80, CHR 0xD0, CHR 0xB0, CHR 0xD1, CHR 0x81, CHR 0xD1, CHR 0x81,
        CHR 0xD0, CHR 0xBB, CHR 0xD0, CHR 0xB5, CHR 0xD0, CHR 0xB4, CHR 0xD0, CHR 0xBE,
        CHR 0xD0, CHR 0xB2, CHR 0xD0, CHR 0xB0, CHR 0xD0, CHR 0xBD, CHR 0xD0, CHR 0xB8,
        CHR 0xD0, CHR 0xB5], AInt),
      (''arcana'', AInt),
      ([CHR 0xD0, CHR 0xBC, CHR 0xD0, CHR 0xB0, CHR 0xD0, CHR 0xB3, CHR 0xD0, CHR 0xB8,
        CHR 0xD1, CHR 0x8F], AInt),
      (''history'', AInt),
      ([CHR 0xD0, CHR 0xB8, CHR 0xD1, CHR 0x81, CHR 0xD1, CHR 0x82, CHR 0xD0, CHR 0xBE,
        CHR 0xD1, CHR 0x80, CHR 0xD0, CHR 0xB8, CHR 0xD1, CHR 0x8F], AInt),
      (''nature'', AInt),
      ([CHR 0xD0, CHR 0xBF, CHR 0xD1, CHR 0x80, CHR 0xD0, CHR 0xB8, CHR 0xD1, CHR 0x80,
        CHR 0xD0, CHR 0xBE, CHR 0xD0, CHR 0xB4, CHR 0xD0, CHR 0xB0], AInt),
      (''religion'', AInt),
      ([CHR 0xD1, CHR 0x80, CHR 0xD0, CHR 0xB5, CHR 0xD0, CHR 0xBB, CHR 0xD0, CHR 0xB8,
        CHR 0xD0, CHR 0xB3, CHR 0xD0, CHR 0xB8, CHR 0xD1, CHR 0x8F], AInt),
      (''insight'', AWis),
      ([CHR 0xD0, CHR 0xBF, CHR 0xD1, CHR 0x80, CHR 0xD0, CHR 0xBE, CHR 0xD0, CHR 0xBD,
        CHR 0xD0, CHR 0xB8, CHR 0xD1, CHR 0x86, CHR 0xD0, CHR 0xB0, CHR 0xD1, CHR 0x82,
        CHR 0xD0, CHR 0xB5, CHR 0xD0, CHR 0xBB, CHR 0xD1, CHR 0x8C, CHR 0xD0, CHR 0xBD,
        CHR 0xD0, CHR 0xBE, CHR 0xD1, CHR 0x81, CHR 0xD1, CHR 0x82, CHR 0xD1, CHR 0x8C], AWis),
      (''perception'', AWis),
      ([CHR 0xD0, CHR 0xB2, CHR 0xD0, CHR 0xBD, CHR 0xD0, CHR 0xB8, CHR 0xD0, CHR 0xBC,
        CHR 0xD0, CHR 0xB0, CHR 0xD1, CHR 0x82, CHR 0xD0, CHR 0xB5, CHR 0xD0, CHR 0xBB,
        CHR 0xD1, CHR 0x8C, CHR 0xD0, CHR 0xBD, CHR 0xD0, CHR 0xBE, CHR 0xD1, CHR 0x81,
        CHR 0xD1, CHR 0x82, CHR 0xD1, CHR 0x8C], AWis),
      (''medicine'', AWis),
      ([CHR 0xD0, CHR 0xBC, CHR 0xD0, CHR 0xB5, CHR 0xD0, CHR 0xB4, CHR 0xD0, CHR 0xB8,
        CHR 0xD1, CHR 0x86, CHR 0xD0, CHR 0xB8, CHR 0xD0, CHR 0xBD, CHR 0xD0, CHR 0xB0], AWis),
      (''survival'', AWis),
      ([CHR 0xD0, CHR 0xB2, CHR 0xD1, CHR 0x8B, CHR 0xD0, CHR 0xB6, CHR 0xD0, CHR 0xB8,
        CHR 0xD0, CHR 0xB2, CHR 0xD0, CHR 0xB0, CHR 0xD0, CHR 0xBD, CHR 0xD0, CHR 0xB8,
        CHR 0xD0, CHR 0xB5], AWis),
      (''animal handling'', AWis),
      ([CHR 0xD1, CHR 0x83, CHR 0xD1, CHR 0x85, CHR 0xD0, CHR 0xBE, CHR 0xD0, CHR 0xB4,
        CHR 0x20, CHR 0xD0, CHR 0xB7, CHR 0xD0, CHR 0xB0, CHR 0x20, CHR 0xD0, CHR 0xB6,
        CHR 0xD0, CHR 0xB8, CHR 0xD0, CHR 0xB2, CHR 0xD0, CHR 0xBE, CHR 0xD1, CHR 0x82,
        CHR 0xD0, CHR 0xBD, CHR 0xD1, CHR 0x8B, CHR 0xD0, CHR 0xBC, CHR 0xD0, CHR 0xB8], AWis),
      (''deception'', ACha),
      ([CHR 0xD0, CHR 0xBE, CHR 0xD0, CHR 0xB1, CHR 0xD0, CHR 0xBC, CHR 0xD0, CHR 0xB0,
        CHR 0xD0, CHR 0xBD], ACha),
      (''intimidation'', ACha),
      ([CHR 0xD0, CHR 0xB7, CHR 0xD0, CHR 0xB0, CHR 0xD0, CHR 0xBF, CHR 0xD1, CHR 0x83,
        CHR 0xD0, CHR 0xB3, CHR 0xD0, CHR 0xB8, CHR 0xD0, CHR 0xB2, CHR 0xD0, CHR 0xB0,
        CHR 0xD0, CHR 0xBD, CHR 0xD0, CHR 0xB8, CHR 0xD0, CHR 0xB5], ACha),
      (''performance'', ACha),
      ([CHR 0xD0, CHR 0xB2, CHR 0xD1, CHR 0x8B, CHR 0xD1, CHR 0x81, CHR 0xD1, CHR 0x82,
        CHR 0xD1, CHR 0x83, CHR 0xD0, CHR 0xBF, CHR 0xD0, CHR 0xBB, CHR 0xD0, CHR 0xB5,
        CHR 0xD0, CHR 0xBD, CHR 0xD0, CHR 0xB8, CHR 0xD0, CHR 0xB5], ACha),
      (''persuasion'', ACha),
      ([CHR 0xD1, CHR 0x83, CHR 0xD0, CHR 0xB1, CHR 0xD0, CHR 0xB5, CHR 0xD0, CHR 0xB6,
        CHR 0xD0, CHR 0xB4, CHR 0xD0, CHR 0xB5, CHR 0xD0, CHR 0xBD, CHR 0xD0, CHR 0xB8,
        CHR 0xD0, CHR 0xB5], ACha)]"

text \<open>Russian names of the six abilities, and the words for death, attack and save.\<close>

definition ru_strength :: string where
  "ru_strength = [CHR 0xD1, CHR 0x81, CHR 0xD0, CHR 0xB8, CHR 0xD0, CHR 0xBB, CHR 0xD0, CHR 0xB0]"

definition ru_dexterity :: string where
  "ru_dexterity =
      [CHR 0xD0, CHR 0xBB, CHR 0xD0, CHR 0xBE, CHR 0xD0, CHR 0xB2, CHR 0xD0, CHR 0xBA,
      CHR 0xD0, CHR 0xBE, CHR 0xD1, CHR 0x81, CHR 0xD1, CHR 0x82, CHR 0xD1, CHR 0x8C]"

definition ru_body :: string where
  "ru_body = [CHR 0xD1, CHR 0x82, CHR 0xD0, CHR 0xB5, CHR 0xD0, CHR 0xBB, CHR 0xD0, CHR 0xBE]"

definition ru_endurance :: string where
  "ru_endurance =
      [CHR 0xD0, CHR 0xB2, CHR 0xD1, CHR 0x8B, CHR 0xD0, CHR 0xBD, CHR 0xD0, CHR 0xBE,
      CHR 0xD1, CHR 0x81]"

definition ru_intellect :: string where
  "ru_intellect =
      [CHR 0xD0, CHR 0xB8, CHR 0xD0, CHR 0xBD, CHR 0xD1, CHR 0x82, CHR 0xD0, CHR 0xB5,
      CHR 0xD0, CHR 0xBB, CHR 0xD0, CHR 0xBB, CHR 0xD0, CHR 0xB5, CHR 0xD0, CHR 0xBA,
      CHR 0xD1, CHR 0x82]"

definition ru_wisdom :: string where
  "ru_wisdom =
      [CHR 0xD0, CHR 0xBC, CHR 0xD1, CHR 0x83, CHR 0xD0, CHR 0xB4, CHR 0xD1, CHR 0x80,
      CHR 0xD0, CHR 0xBE, CHR 0xD1, CHR 0x81, CHR 0xD1, CHR 0x82, CHR 0xD1, CHR 0x8C]"

definition ru_charisma :: string where
  "ru_charisma =
      [CHR 0xD1, CHR 0x85, CHR 0xD0, CHR 0xB0, CHR 0xD1, CHR 0x80, CHR 0xD0, CHR 0xB8,
      CHR 0xD0, CHR 0xB7, CHR 0xD0, CHR 0xBC, CHR 0xD0, CHR 0xB0]"

definition ru_death :: string where
  "ru_death =
      [CHR 0xD1, CHR 0x81, CHR 0xD0, CHR 0xBC, CHR 0xD0, CHR 0xB5, CHR 0xD1, CHR 0x80,
      CHR 0xD1, CHR 0x82, CHR 0xD1, CHR 0x8C]"

definition ru_save :: string where
  "ru_save = [CHR 0xD1, CHR 0x81, CHR 0xD0, CHR 0xBF, CHR 0xD0, CHR 0xB0, CHR 0xD1, CHR 0x81]"

definition resolveAttributeFromCheck :: "string \<Rightarrow> attrKey" where
  "resolveAttributeFromCheck checkName =
     (if checkName = [] then ADex
      else
        let checkNameLower = trim (toLowerCase checkName) in
        if checkNameLower = ''str'' then AStr
        else if checkNameLower = ''dex'' then ADex
        else if checkNameLower = ''con'' then ACon
        else if checkNameLower = ''int'' then AInt
        else if checkNameLower = ''wis'' then AWis
        else if checkNameLower = ''cha'' then ACha
        else if str_includes checkNameLower ru_strength then AStr
        else if str_includes checkNameLower ru_dexterity then ADex
        else if str_includes checkNameLower ru_body \<or> str_includes checkNameLower ru_endurance then ACon
        else if str_includes checkNameLower ru_intellect then AInt
        else if str_includes checkNameLower ru_wisdom then AWis
        else if str_includes checkNameLower ru_charisma then ACha
        else (case find (\<lambda>(skill, a). str_includes checkNameLower skill) SKILL_MAP of
                Some (skill, a) \<Rightarrow> a
              | None \<Rightarrow> ADex))"

definition isSavingThrow :: "string \<Rightarrow> bool" where
  "isSavingThrow checkName =
     (if checkName = [] then False
      else let lower = toLowerCase checkName in
           str_includes lower ''save'' \<or> str_includes lower ru_save \<or> str_includes lower ''saving'')"

definition isDeathSaveCheck :: "checkRequest \<Rightarrow> bool" where
  "isDeathSaveCheck chk =
     (str_includes (toLowerCase (reason chk)) ''death'' \<or> str_includes (toLowerCase (reason chk)) ru_death)"

text \<open>The modifier \<open>mod\<close> that \<open>handleRoll\<close> adds to the roll.\<close>

definition rollModifier :: "character option \<Rightarrow> checkRequest \<Rightarrow> number" where
  "rollModifier char chk =
     (let attrKey = resolveAttributeFromCheck (attribute chk);
          attrValue = numOr (case char of Some c \<Rightarrow> attrValueOf (attributes c) attrKey | None \<Rightarrow> NaN)
                            (Num 10)
      in if isDeathSaveCheck chk then Num 0
         else
           let isSaveCheck = (isSave chk \<or> isSavingThrow (reason chk) \<or> isSavingThrow (attribute chk));
               isProficient =
                 (case char of
                    None \<Rightarrow> False
                  | Some c \<Rightarrow>
                      if isSaveCheck
                      then list_ex (\<lambda>s. str_includes (toLowerCase s) (attrName attrKey)) (savingThrows c)
                      else list_ex (\<lambda>skillName.
                               str_includes (toLowerCase (reason chk)) (toLowerCase skillName)
                               \<or> str_includes (toLowerCase (attribute chk)) (toLowerCase skillName))
                             (skills c))
           in if isProficient
              then num_add (getModifier attrValue)
                     (getProficiencyBonus
                        (numOr (case char of Some c \<Rightarrow> (case level c of Some l \<Rightarrow> l | None \<Rightarrow> NaN)
                                           | None \<Rightarrow> NaN) (Num 1)))
              else getModifier attrValue)"

definition finalRollOf :: "rollType \<Rightarrow> number \<Rightarrow> number \<Rightarrow> number" where
  "finalRollOf rt r1 r2 = (case rt of Normal \<Rightarrow> r1 | Adv \<Rightarrow> Math_max r1 r2 | Dis \<Rightarrow> Math_min r1 r2)"

definition rollTypeLabel :: "rollType \<Rightarrow> string" where
  "rollTypeLabel rt = (case rt of Adv \<Rightarrow> ''with ADVANTAGE'' | Dis \<Rightarrow> ''with DISADVANTAGE'' | Normal \<Rightarrow> ''NORMAL'')"

text \<open>
  The death-save branch on the character: the new character and \<open>resultText\<close> as far as
  this branch sets it (\<open>[]\<close> when it does not).
\<close>

definition deathSaveStep :: "bool \<Rightarrow> number \<Rightarrow> character \<Rightarrow> character \<times> string" where
  "deathSaveStep succeeded finalRoll c =
     (if succeeded then
        (if finalRoll = Num 20
         then (c\<lparr>hp := Num 1, deathSaves := \<lparr>successes = Num 0, failures = Num 0\<rparr>\<rparr>,
               ''[SYSTEM]: CRITICAL SUCCESS! You regain consciousness with 1 HP.'')
         else (c\<lparr>deathSaves := (deathSaves c)
                  \<lparr>successes := Math_min (Num 3) (num_add (successes (deathSaves c)) (Num 1))\<rparr>\<rparr>, []))
      else
        (c\<lparr>deathSaves := (deathSaves c)
            \<lparr>failures := Math_min (Num 3)
               (num_add (failures (deathSaves c)) (if finalRoll = Num 1 then Num 2 else Num 1))\<rparr>\<rparr>, []))"

definition txtSuccess :: string where
  "txtSuccess =
      [CHR 0xD0, CHR 0xA3, CHR 0xD0, CHR 0xA1, CHR 0xD0, CHR 0x9F, CHR 0xD0, CHR 0x95,
      CHR 0xD0, CHR 0xA5]"

definition txtFailure :: string where
  "txtFailure =
      [CHR 0xD0, CHR 0x9F, CHR 0xD0, CHR 0xA0, CHR 0xD0, CHR 0x9E, CHR 0xD0, CHR 0x92,
      CHR 0xD0, CHR 0x90, CHR 0xD0, CHR 0x9B]"

definition txtDead :: string where
  "txtDead =
     [CHR 0xF0, CHR 0x9F, CHR 0x92, CHR 0x80, CHR 0x20, CHR 0xD0, CHR 0x9F, CHR 0xD0,
      CHR 0x95, CHR 0xD0, CHR 0xA0, CHR 0xD0, CHR 0xA1, CHR 0xD0, CHR 0x9E, CHR 0xD0,
      CHR 0x9D, CHR 0xD0, CHR 0x90, CHR 0xD0, CHR 0x96, CHR 0x20, CHR 0xD0, CHR 0x9F,
      CHR 0xD0, CHR 0x9E, CHR 0xD0, CHR 0x93, CHR 0xD0, CHR 0x98, CHR 0xD0, CHR 0x91,
      CHR 0x2E, CHR 0x20, CHR 0xD0, CHR 0x98, CHR 0xD0, CHR 0xA1, CHR 0xD0, CHR 0xA2,
      CHR 0xD0, CHR 0x9E, CHR 0xD0, CHR 0xA0, CHR 0xD0, CHR 0x98, CHR 0xD0, CHR 0xAF,
      CHR 0x20, CHR 0xD0, CHR 0x97, CHR 0xD0, CHR 0x90, CHR 0xD0, CHR 0x92, CHR 0xD0,
      CHR 0x95, CHR 0xD0, CHR 0xA0, CHR 0xD0, CHR 0xA8, CHR 0xD0, CHR 0x95, CHR 0xD0,
      CHR 0x9D, CHR 0xD0, CHR 0x90, CHR 0x2E]"

definition txtLabelSuccess :: string where
  "txtLabelSuccess =
      [CHR 0xD0, CHR 0xA3, CHR 0xD1, CHR 0x81, CHR 0xD0, CHR 0xBF, CHR 0xD0, CHR 0xB5,
      CHR 0xD1, CHR 0x85]"

definition txtLabelFail :: string where
  "txtLabelFail =
      [CHR 0xD0, CHR 0x9F, CHR 0xD1, CHR 0x80, CHR 0xD0, CHR 0xBE, CHR 0xD0, CHR 0xB2,
      CHR 0xD0, CHR 0xB0, CHR 0xD0, CHR 0xBB]"

text \<open>
  The result of \<open>handleRoll\<close>: the state it stores and the prompt of the follow-up call of
  the narrative service it schedules, if any.
\<close>

record rollResult =
  stateAfterRoll :: state
  followUp :: "string option"

text \<open>
  \<open>handleRoll\<close>: \<open>rnd1\<close> and \<open>rnd2\<close> are the random draws of the two calls of
  \<open>parseAndRoll\<close>. Nothing happens without a pending check. The state is taken to be the
  same when the handler starts and when its timer fires. Without a character the source
  stores an empty object as the character; the model leaves the state without one.
  The handler is split into the values it computes in turn.
\<close>

definition diceConfigOf :: "checkRequest \<Rightarrow> string" where
  "diceConfigOf chk = (if dice chk = [] then ''1d20'' else dice chk)"

definition checkDC :: "checkRequest \<Rightarrow> number" where
  "checkDC chk = numOr (difficulty chk) (Num 10)"

definition rolledValue :: "(nat \<Rightarrow> rat) \<Rightarrow> (nat \<Rightarrow> rat) \<Rightarrow> rollType \<Rightarrow> checkRequest \<Rightarrow> number" where
  "rolledValue rnd1 rnd2 rt chk =
     finalRollOf rt (parseAndRoll rnd1 (JStr (diceConfigOf chk)))
                    (parseAndRoll rnd2 (JStr (diceConfigOf chk)))"

definition recordedRolls :: "(nat \<Rightarrow> rat) \<Rightarrow> (nat \<Rightarrow> rat) \<Rightarrow> rollType \<Rightarrow> checkRequest \<Rightarrow> number list" where
  "recordedRolls rnd1 rnd2 rt chk =
     (if rt = Normal then [parseAndRoll rnd1 (JStr (diceConfigOf chk))]
      else [parseAndRoll rnd1 (JStr (diceConfigOf chk)), parseAndRoll rnd2 (JStr (diceConfigOf chk))])"

text \<open>\<open>updatedChar\<close> and the \<open>resultText\<close> the death-save branch sets.\<close>

definition updatedCharacter :: "character option \<Rightarrow> checkRequest \<Rightarrow> bool \<Rightarrow> number \<Rightarrow> character option \<times> string" where
  "updatedCharacter char chk succeeded finalRoll =
     (case char of
        Some c \<Rightarrow> if isDeathSaveCheck chk
                  then (case deathSaveStep succeeded finalRoll c of (c', t) \<Rightarrow> (Some c', t))
                  else (Some c, [])
      | None \<Rightarrow> (None, []))"

definition isDeadAfter :: "checkRequest \<Rightarrow> character option \<Rightarrow> bool" where
  "isDeadAfter chk updatedChar =
     (isDeathSaveCheck chk
      \<and> (case updatedChar of Some c \<Rightarrow> num_le (Num 3) (failures (deathSaves c)) | None \<Rightarrow> False))"

text \<open>The text built when the character is not dead and no text was set before.\<close>

definition describeRoll ::
    "rollType \<Rightarrow> checkRequest \<Rightarrow> number \<Rightarrow> number \<Rightarrow> number \<Rightarrow> bool \<Rightarrow> character option \<Rightarrow> string" where
  "describeRoll rt chk finalRoll md totalRoll succeeded updatedChar =
     (if isAttack chk \<and> succeeded then
        ''[SYSTEM]: ATTACK ROLL ('' @ rollTypeLabel rt @ ''). Roll '' @ String_num finalRoll
        @ '' + Mod '' @ String_num md @ '' = '' @ String_num totalRoll @ '' vs AC ''
        @ String_num (checkDC chk) @ ''. HIT! Waiting for damage roll...''
      else if isDeathSaveCheck chk then
        ''[SYSTEM]: DEATH SAVE. Result: '' @ (if succeeded then ''SUCCESS'' else ''FAILURE'')
        @ ''. Current Status: ''
        @ (case updatedChar of Some c \<Rightarrow> String_num (successes (deathSaves c)) | None \<Rightarrow> ''undefined'')
        @ '' Successes, ''
        @ (case updatedChar of Some c \<Rightarrow> String_num (failures (deathSaves c)) | None \<Rightarrow> ''undefined'')
        @ '' Failures.''
      else
        ''[SYSTEM]: CHECK/SAVE. Roll '' @ String_num finalRoll @ '' + Mod '' @ String_num md
        @ '' = '' @ String_num totalRoll @ '' vs DC '' @ String_num (checkDC chk) @ ''. Result: ''
        @ (if succeeded then ''SUCCESS'' else ''FAILURE'') @ ''.'')"

definition resultTextOf ::
    "rollType \<Rightarrow> checkRequest \<Rightarrow> number \<Rightarrow> number \<Rightarrow> number \<Rightarrow> bool \<Rightarrow> character option \<Rightarrow> string \<Rightarrow> string" where
  "resultTextOf rt chk finalRoll md totalRoll succeeded updatedChar text0 =
     (let text1 = (if isDeadAfter chk updatedChar
                   then ''[SYSTEM]: DEATH SAVE FAILURE. You have succumbed to your wounds. GAME OVER.''
                   else text0)
      in if \<not> isDeadAfter chk updatedChar \<and> text1 = []
         then describeRoll rt chk finalRoll md totalRoll succeeded updatedChar
         else text1)"

definition visualEntry ::
    "nat \<Rightarrow> rollType \<Rightarrow> checkRequest \<Rightarrow> number \<Rightarrow> number list \<Rightarrow> number \<Rightarrow> number \<Rightarrow> bool \<Rightarrow> logEntry" where
  "visualEntry now rt chk finalRoll rolled md totalRoll succeeded =
     \<lparr>entry_id = digitsOf now, role = RollResult,
      entry_text = (if succeeded then txtSuccess else txtFailure), timestamp = now,
      meta = Some
        \<lparr>meta_roll = finalRoll, meta_rolls = rolled, meta_mod = md,
         meta_total = totalRoll, meta_dc = checkDC chk,
         meta_attr = (if isDeathSaveCheck chk then ''DEATH''
                      else attrUpper (resolveAttributeFromCheck (attribute chk))),
         meta_success = succeeded, meta_reason = reason chk, meta_dice = diceConfigOf chk,
         meta_isAttack = isAttack chk,
         meta_damageDice =
           (if isAttack chk \<and> succeeded
            then Some (case damageDice chk of Some (c # cs) \<Rightarrow> c # cs | _ \<Rightarrow> ''1d4'')
            else None),
         meta_successLabel = (if successRisk chk = [] then txtLabelSuccess else successRisk chk),
         meta_failLabel = (if failRisk chk = [] then txtLabelFail else failRisk chk),
         meta_rollType = rt\<rparr>\<rparr>"

definition deathEntry :: "nat \<Rightarrow> logEntry" where
  "deathEntry now = \<lparr>entry_id = digitsOf now @ ''_death'', role = System,
                     entry_text = txtDead, timestamp = now, meta = None\<rparr>"

definition resolveCheck ::
    "(nat \<Rightarrow> rat) \<Rightarrow> (nat \<Rightarrow> rat) \<Rightarrow> nat \<Rightarrow> rollType \<Rightarrow> state \<Rightarrow> checkRequest \<Rightarrow> rollResult" where
  "resolveCheck rnd1 rnd2 now rt st chk =
     (let md = rollModifier (character st) chk;
          finalRoll = rolledValue rnd1 rnd2 rt chk;
          totalRoll = num_add finalRoll md;
          succeeded = num_le (checkDC chk) totalRoll;
          updated = updatedCharacter (character st) chk succeeded finalRoll;
          isDead = isDeadAfter chk (fst updated);
          resultText = resultTextOf rt chk finalRoll md totalRoll succeeded (fst updated) (snd updated);
          newHistory = history st
             @ [visualEntry now rt chk finalRoll (recordedRolls rnd1 rnd2 rt chk) md totalRoll succeeded]
             @ (if isDead then [deathEntry now] else [])
      in \<lparr>stateAfterRoll =
             st\<lparr>history := newHistory, pendingCheck := None, character := fst updated,
                phase := (if isDead then Gameover else phase st)\<rparr>,
          followUp = (if \<not> isDead \<and> (\<not> isAttack chk \<or> \<not> succeeded) then Some resultText else None)\<rparr>)"

definition handleRoll :: "(nat \<Rightarrow> rat) \<Rightarrow> (nat \<Rightarrow> rat) \<Rightarrow> nat \<Rightarrow> rollType \<Rightarrow> state \<Rightarrow> rollResult" where
  "handleRoll rnd1 rnd2 now rt st =
     (case pendingCheck st of
        None \<Rightarrow> \<lparr>stateAfterRoll = st, followUp = None\<rparr>
      | Some chk \<Rightarrow> resolveCheck rnd1 rnd2 now rt st chk)"

subsection \<open>Equipping and unequipping (\<open>handleToggleEquip\<close>)\<close>




section \<open>Sample data and notions used in the statements\<close>

text \<open>A runtime whose \<open>JSON.parse\<close> rejects every string it is given.\<close>

definition parseFails :: "string \<Rightarrow> jsval option" where
  "parseFails s = None"





definition buckler :: item where
  "buckler = \<lparr>name = ''Buckler'', category = Armor, description = Undefined,
      mechanics = Val (JObj [(''type'', JStr ''shield''), (''bonus'', JNum 2)]),
      quantity = Num 1, equipped = Val True\<rparr>"

definition scrawledShield :: item where
  "scrawledShield = \<lparr>name = ''Old Shield'', category = Armor, description = Undefined,
      mechanics = Val (JStr ''+2 AC''), quantity = Num 1, equipped = Val True\<rparr>"

definition scrawledCloak :: item where
  "scrawledCloak = \<lparr>name = ''Cloak'', category = Armor, description = Undefined,
      mechanics = Val (JStr ''AC 13, light''), quantity = Num 1, equipped = Val True\<rparr>"

definition crossbowPayload :: jsval where
  "crossbowPayload =
     JObj [(''narrative'', JStr ''You find a weapon.''),
           (''characterUpdate'',
              JObj [(''inventory'',
                 JArr [JObj [(''name'', JStr ''Hand Crossbow''), (''type'', JStr ''weapon''),
                             (''equipped'', JBool True)],
                       JObj [(''name'', JStr ''Rope''), (''quantity'', JNum 2)]])])]"





definition deathSavesPayload :: jsval where
  "deathSavesPayload = JObj [(''narrative'', JStr ''You fall.''),
      (''characterUpdate'',
         JObj [(''deathSaves'', JObj [(''successes'', JNum 7), (''failures'', JNum (- 2))])])]"


text \<open>The death-save counters of the character in the state a turn saved.\<close>

definition savedDeathSaves :: "turnResult \<Rightarrow> deathSaves option" where
  "savedDeathSaves t = (case t of
       Saved s fl \<Rightarrow> (case character s of Some c \<Rightarrow> Some (deathSaves c) | None \<Rightarrow> None)
     | _ \<Rightarrow> None)"

definition inRange03 :: "deathSaves \<Rightarrow> bool" where
  "inRange03 d = (num_le (Num 0) (successes d) \<and> num_le (successes d) (Num 3)
                  \<and> num_le (Num 0) (failures d) \<and> num_le (failures d) (Num 3))"

definition deathCheck :: "rat \<Rightarrow> checkRequest" where
  "deathCheck d = \<lparr>attribute = ''con'', difficulty = Num d, dice = ''1d20'',
      reason = ''Death saving throw'', successRisk = ''Success'', failRisk = ''Failure'',
      isAttack = False, isSave = True, damageDice = None\<rparr>"

definition dyingState :: "rat \<Rightarrow> state" where
  "dyingState d = \<lparr>phase = Gameplay, world = None,
      character = Some (DUMMY_CHAR\<lparr>hp := Num 1, deathSaves := \<lparr>successes = Num 1, failures = Num 1\<rparr>\<rparr>),
      history = [], currentOptions = [], pendingCheck = Some (deathCheck d),
      levelUpChoices = None\<rparr>"

text \<open>The roll breakdown \<open>handleRoll\<close> appends to the history.\<close>

definition rollEntryMeta :: "state \<Rightarrow> rollResult \<Rightarrow> rollMeta option" where
  "rollEntryMeta before r =
     (case drop (length (history before)) (history (stateAfterRoll r)) of
        e # es \<Rightarrow> meta e
      | [] \<Rightarrow> None)"

section \<open>Properties of the retry loop\<close>

lemma isQuota_429: "isQuota ''429''"
  by code_simp

lemma retryLoop_unfold3:
  "callWithRetry g =
     (case g 0 of
        Returned r \<Rightarrow> \<lparr>outcome = Inr r, calls = 1, waited = []\<rparr>
      | Threw e0 \<Rightarrow>
          if \<not> isQuota e0 then \<lparr>outcome = Inl e0, calls = 1, waited = []\<rparr>
          else (case g 1 of
             Returned r \<Rightarrow> \<lparr>outcome = Inr r, calls = 2, waited = [4000]\<rparr>
           | Threw e1 \<Rightarrow>
               if \<not> isQuota e1 then \<lparr>outcome = Inl e1, calls = 2, waited = [4000]\<rparr>
               else (case g 2 of
                  Returned r \<Rightarrow> \<lparr>outcome = Inr r, calls = 3, waited = [4000, 8000]\<rparr>
                | Threw e2 \<Rightarrow> \<lparr>outcome = Inl e2, calls = 3, waited = [4000, 8000]\<rparr>)))"
proof -
  have two: "(2::nat) = Suc (Suc 0)" by simp
  show ?thesis
    unfolding callWithRetry_def
    by (simp add: maxRetries_def two split: attempt.splits)
qed

text \<open>
  C9, as stated, fails: the delay before the first retry is 4 seconds, not 2, because
  \<open>attempt\<close> is incremented before the delay \<open>2000 * 2 ^ attempt\<close> is computed.
\<close>

theorem C9_first_delay_counterexample:
  "waited (callWithRetry (\<lambda>k. Threw ''429'' :: unit attempt)) = [4000, 8000]
   \<and> hd (waited (callWithRetry (\<lambda>k. Threw ''429'' :: unit attempt))) \<noteq> 2000"
  by (simp add: retryLoop_unfold3 isQuota_429)

text \<open>
  C9 (amended): the service is called at most 3 times; the delays slept are a prefix of
  4000 ms, 8000 ms (one per retry); every call but the last threw a rate-limit-class
  error; and a call that throws any other error is the last one, its error being what
  the loop throws.
\<close>

theorem C9_retry_bounded:
  "calls (callWithRetry g) \<le> 3
   \<and> 1 \<le> calls (callWithRetry g)
   \<and> waited (callWithRetry g) = take (calls (callWithRetry g) - 1) [4000, 8000]
   \<and> (\<forall>k. Suc k < calls (callWithRetry g) \<longrightarrow> (\<exists>e. g k = Threw e \<and> isQuota e))
   \<and> (\<forall>k e. k < calls (callWithRetry g) \<and> g k = Threw e \<and> \<not> isQuota e \<longrightarrow>
         Suc k = calls (callWithRetry g) \<and> outcome (callWithRetry g) = Inl e)"
proof -
  let ?r = "callWithRetry g"
  have lt3: "k < (3::nat) \<longleftrightarrow> k = 0 \<or> k = 1 \<or> k = 2" for k by auto
  have lt2: "k < (2::nat) \<longleftrightarrow> k = 0 \<or> k = 1" for k by auto
  have shape:
    "(calls ?r = 1 \<and> waited ?r = [] \<and> (\<forall>e. g 0 = Threw e \<longrightarrow> outcome ?r = Inl e \<and> \<not> isQuota e))
     \<or> (calls ?r = 2 \<and> waited ?r = [4000] \<and> (\<exists>e. g 0 = Threw e \<and> isQuota e)
         \<and> (\<forall>e. g 1 = Threw e \<longrightarrow> outcome ?r = Inl e \<and> \<not> isQuota e))
     \<or> (calls ?r = 3 \<and> waited ?r = [4000, 8000] \<and> (\<exists>e. g 0 = Threw e \<and> isQuota e)
         \<and> (\<exists>e. g 1 = Threw e \<and> isQuota e)
         \<and> (\<forall>e. g 2 = Threw e \<longrightarrow> outcome ?r = Inl e))"
    by (cases "g 0"; cases "g 1"; cases "g 2") (simp_all add: retryLoop_unfold3)
  then consider
      (one) "calls ?r = 1" "waited ?r = []"
            "\<forall>e. g 0 = Threw e \<longrightarrow> outcome ?r = Inl e \<and> \<not> isQuota e"
    | (two) "calls ?r = 2" "waited ?r = [4000]" "\<exists>e. g 0 = Threw e \<and> isQuota e"
            "\<forall>e. g 1 = Threw e \<longrightarrow> outcome ?r = Inl e \<and> \<not> isQuota e"
    | (three) "calls ?r = 3" "waited ?r = [4000, 8000]" "\<exists>e. g 0 = Threw e \<and> isQuota e"
            "\<exists>e. g 1 = Threw e \<and> isQuota e"
            "\<forall>e. g 2 = Threw e \<longrightarrow> outcome ?r = Inl e"
    by blast
  then show ?thesis
  proof cases
    case one
    then show ?thesis by auto
  next
    case two
    then show ?thesis by (auto simp: lt2)
  next
    case three
    then show ?thesis by (auto simp: lt2 lt3)
  qed
qed

theorem C9_retry_bounded_witness:
  "calls (callWithRetry (\<lambda>k. if k = 0 then Threw ''Quota exceeded'' else Threw ''400 bad request'' :: unit attempt)) = 2
   \<and> waited (callWithRetry (\<lambda>k. if k = 0 then Threw ''Quota exceeded'' else Threw ''400 bad request'' :: unit attempt)) = [4000]
   \<and> outcome (callWithRetry (\<lambda>k. if k = 0 then Threw ''Quota exceeded'' else Threw ''400 bad request'' :: unit attempt)) = Inl ''400 bad request''"
proof -
  let ?g = "\<lambda>k::nat. if k = 0 then Threw ''Quota exceeded'' else Threw ''400 bad request'' :: unit attempt"
  have q: "isQuota ''Quota exceeded''" by code_simp
  have nq: "\<not> isQuota ''400 bad request''" by code_simp
  have c: "calls (callWithRetry ?g) = 2"
    by (simp add: retryLoop_unfold3 q nq)
  from C9_retry_bounded [of ?g] c
  have "waited (callWithRetry ?g) = [4000]"
    and "\<forall>k e. k < 2 \<and> ?g k = Threw e \<and> \<not> isQuota e \<longrightarrow> outcome (callWithRetry ?g) = Inl e"
    by simp_all
  then show ?thesis using c nq by (metis one_less_numeral_iff semiring_norm(76) zero_neq_one)
qed

section \<open>Properties of the armor class\<close>




lemma num_add_right_comm: "num_add (num_add s t) x = num_add (num_add s x) t"
  by (cases s; cases t; cases x) simp_all

lemma armorStep_shift:
  "armorStep jp dm it (b, s) = Inr (b', s') \<Longrightarrow>
   armorStep jp dm it (b, num_add s t) = Inr (b', num_add s' t)"
  by (auto simp: armorStep_def Let_def num_add_right_comm split: if_splits jsval.splits)

lemma armorLoop_shift:
  "armorLoop jp dm its (b, s) = Inr (b', s') \<Longrightarrow>
   armorLoop jp dm its (b, num_add s t) = Inr (b', num_add s' t)"
proof (induction its arbitrary: b s)
  case Nil
  then show ?case by simp
next
  case (Cons it its)
  then obtain b1 s1 where st: "armorStep jp dm it (b, s) = Inr (b1, s1)"
    and rest: "armorLoop jp dm its (b1, s1) = Inr (b', s')"
    by (auto split: sum.splits)
  from armorStep_shift [OF st] Cons.IH [OF rest] show ?case by simp
qed

lemma armorLoop_append:
  "armorLoop jp dm (xs @ ys) acc =
     (case armorLoop jp dm xs acc of Inl e \<Rightarrow> Inl e | Inr acc' \<Rightarrow> armorLoop jp dm ys acc')"
  by (induction xs arbitrary: acc) (auto split: sum.splits)

lemma armorStep_shield:
  "countsAsShield jp sh \<Longrightarrow>
   armorStep jp dm sh (b, s) = Inr (b, num_add s (shieldBonusOf jp sh))"
  by (auto simp: armorStep_def countsAsShield_def shieldBonusOf_def Let_def)

lemma shield_on_top:
  assumes sh: "countsAsShield jp sh"
    and r: "calculateArmorClass jp (c\<lparr>inventory := xs @ ys\<rparr>) = Inr r"
  shows "calculateArmorClass jp (c\<lparr>inventory := xs @ sh # ys\<rparr>)
         = Inr (num_add r (shieldBonusOf jp sh))"
proof -
  let ?dm = "getModifier (dex (attributes c))"
  let ?a0 = "(num_add (Num 10) ?dm, Num 0)"
  from r obtain b s where all: "armorLoop jp ?dm (xs @ ys) ?a0 = Inr (b, s)"
    and rr: "r = num_add b s"
    by (auto simp: calculateArmorClass_def Let_def split: sum.splits)
  from all obtain b1 s1 where x: "armorLoop jp ?dm xs ?a0 = Inr (b1, s1)"
    and y: "armorLoop jp ?dm ys (b1, s1) = Inr (b, s)"
    by (auto simp: armorLoop_append split: sum.splits)
  have "armorLoop jp ?dm (xs @ sh # ys) ?a0 = Inr (b, num_add s (shieldBonusOf jp sh))"
    using x armorStep_shield [OF sh] armorLoop_shift [OF y]
    by (simp add: armorLoop_append)
  then show ?thesis
    using rr
    by (cases b; cases s; cases "shieldBonusOf jp sh") (simp_all add: calculateArmorClass_def)
qed




lemma parseInt_two: "parseInt (numToString 2) = Num 2"
  by code_simp

lemma itemStats_unparseable:
  assumes "mechanics it = Val (JStr s)" and "jp s = None"
    and "jp (map (\<lambda>c. if c = CHR 0x27 then CHR 0x22 else c) s) = None"
  shows "itemStats jp it = JObj []"
  using assms by (simp add: itemStats_def lenientParse_def jsOr_def)

lemma itemStats_absent: "itemStats jp (it\<lparr>mechanics := Absent\<rparr>) = JObj []"
  by (simp add: itemStats_def jsOr_def)

lemma armorStep_no_stats:
  assumes "itemStats jp it = JObj []"
  shows "armorStep jp dm it (b, s) =
     Inr (b, if fieldTruthy (equipped it) \<and> category it = Armor \<and> nameIsShield (name it)
             then num_add s (Num 2) else s)"
  using assms by (simp add: armorStep_def Let_def jsOr_def numOr_def parseInt_two)

lemma calculateArmorClass_step_cong:
  assumes "\<And>acc. armorStep jp (getModifier (dex (attributes c))) it acc
                 = armorStep jp (getModifier (dex (attributes c))) it' acc"
  shows "calculateArmorClass jp (c\<lparr>inventory := xs @ it # ys\<rparr>)
       = calculateArmorClass jp (c\<lparr>inventory := xs @ it' # ys\<rparr>)"
  using assms by (simp add: calculateArmorClass_def armorLoop_append Let_def split: sum.splits)

lemma calculateArmorClass_skip:
  assumes "\<And>acc. armorStep jp (getModifier (dex (attributes c))) it acc = Inr acc"
  shows "calculateArmorClass jp (c\<lparr>inventory := xs @ it # ys\<rparr>)
       = calculateArmorClass jp (c\<lparr>inventory := xs @ ys\<rparr>)"
  using assms by (simp add: calculateArmorClass_def armorLoop_append Let_def split: sum.splits)

text \<open>
  C6, as stated, fails: an equipped armor-category item whose name marks it as a shield
  adds the default bonus 2 even though its annotation \<open>+2 AC\<close> cannot be parsed.
\<close>

theorem C6_shield_counterexample:
  "mechanics scrawledShield = Val (JStr ''+2 AC'')
   \<and> lenientParse parseFails ''+2 AC'' = JNull
   \<and> calculateArmorClass parseFails (DUMMY_CHAR\<lparr>inventory := [scrawledShield]\<rparr>) = Inr (Num 12)
   \<and> calculateArmorClass parseFails (DUMMY_CHAR\<lparr>inventory := []\<rparr>) = Inr (Num 10)"
  by code_simp

text \<open>
  C6 (amended): an item whose annotation is a string that \<open>JSON.parse\<close> rejects, as written
  and with its single quotes replaced, is treated exactly as an item with no annotation.
  Its step of the computation never throws; it contributes nothing, unless it is an
  equipped armor-category item whose name marks it as a shield, which adds the default
  bonus 2.
\<close>

theorem C6_unparseable_as_absent:
  assumes "mechanics it = Val (JStr s)" and "jp s = None"
    and "jp (map (\<lambda>c. if c = CHR 0x27 then CHR 0x22 else c) s) = None"
  shows "itemStats jp it = itemStats jp (it\<lparr>mechanics := Absent\<rparr>)
    \<and> armorStep jp dm it (b, sb) =
        Inr (b, if fieldTruthy (equipped it) \<and> category it = Armor \<and> nameIsShield (name it)
                then num_add sb (Num 2) else sb)
    \<and> calculateArmorClass jp (c\<lparr>inventory := xs @ it # ys\<rparr>)
        = calculateArmorClass jp (c\<lparr>inventory := xs @ it\<lparr>mechanics := Absent\<rparr> # ys\<rparr>)
    \<and> (\<not> (fieldTruthy (equipped it) \<and> category it = Armor \<and> nameIsShield (name it)) \<longrightarrow>
        calculateArmorClass jp (c\<lparr>inventory := xs @ it # ys\<rparr>)
        = calculateArmorClass jp (c\<lparr>inventory := xs @ ys\<rparr>))
    \<and> (fieldTruthy (equipped it) \<and> category it = Armor \<and> nameIsShield (name it)
        \<and> calculateArmorClass jp (c\<lparr>inventory := xs @ ys\<rparr>) = Inr r \<longrightarrow>
        calculateArmorClass jp (c\<lparr>inventory := xs @ it # ys\<rparr>) = Inr (num_add r (Num 2)))"
proof -
  have st: "itemStats jp it = JObj []"
    using assms by (rule itemStats_unparseable)
  have st': "itemStats jp (it\<lparr>mechanics := Absent\<rparr>) = JObj []"
    by (rule itemStats_absent)
  have step: "armorStep jp d it (b', s') =
        Inr (b', if fieldTruthy (equipped it) \<and> category it = Armor \<and> nameIsShield (name it)
                then num_add s' (Num 2) else s')" for d b' s'
    using st by (rule armorStep_no_stats)
  have step': "armorStep jp d (it\<lparr>mechanics := Absent\<rparr>) (b', s') =
        Inr (b', if fieldTruthy (equipped it) \<and> category it = Armor \<and> nameIsShield (name it)
                then num_add s' (Num 2) else s')" for d b' s'
    using armorStep_no_stats [OF st'] by simp
  have same: "calculateArmorClass jp (c\<lparr>inventory := xs @ it # ys\<rparr>)
        = calculateArmorClass jp (c\<lparr>inventory := xs @ it\<lparr>mechanics := Absent\<rparr> # ys\<rparr>)"
    by (rule calculateArmorClass_step_cong) (auto simp: step step' simp del: item.simps)
  have skip: "calculateArmorClass jp (c\<lparr>inventory := xs @ it # ys\<rparr>)
        = calculateArmorClass jp (c\<lparr>inventory := xs @ ys\<rparr>)"
    if "\<not> (fieldTruthy (equipped it) \<and> category it = Armor \<and> nameIsShield (name it))"
    by (rule calculateArmorClass_skip) (use that in \<open>auto simp: step\<close>)
  have top: "calculateArmorClass jp (c\<lparr>inventory := xs @ it # ys\<rparr>) = Inr (num_add r (Num 2))"
    if "fieldTruthy (equipped it) \<and> category it = Armor \<and> nameIsShield (name it)"
      and "calculateArmorClass jp (c\<lparr>inventory := xs @ ys\<rparr>) = Inr r"
  proof -
    have sh: "countsAsShield jp it"
      using that(1) by (simp add: countsAsShield_def)
    have "shieldBonusOf jp it = Num 2"
      by (simp add: shieldBonusOf_def st jsOr_def numOr_def parseInt_two)
    with shield_on_top [OF sh that(2)] show ?thesis by simp
  qed
  show ?thesis
    using st st' step same skip top by simp
qed

theorem C6_unparseable_as_absent_witness:
  "mechanics scrawledCloak = Val (JStr ''AC 13, light'')
   \<and> parseFails ''AC 13, light'' = None
   \<and> itemStats parseFails scrawledCloak = JObj []
   \<and> calculateArmorClass parseFails (DUMMY_CHAR\<lparr>inventory := [] @ scrawledCloak # [buckler]\<rparr>)
     = calculateArmorClass parseFails (DUMMY_CHAR\<lparr>inventory := [] @ [buckler]\<rparr>)
   \<and> calculateArmorClass parseFails (DUMMY_CHAR\<lparr>inventory := [] @ [buckler]\<rparr>) = Inr (Num 12)"
proof -
  have m: "mechanics scrawledCloak = Val (JStr ''AC 13, light'')"
    by (simp add: scrawledCloak_def)
  have p1: "parseFails ''AC 13, light'' = None"
    by (simp add: parseFails_def)
  have p2: "parseFails (map (\<lambda>c. if c = CHR 0x27 then CHR 0x22 else c) ''AC 13, light'') = None"
    by (simp add: parseFails_def)
  have ns: "\<not> (fieldTruthy (equipped scrawledCloak) \<and> category scrawledCloak = Armor
      \<and> nameIsShield (name scrawledCloak))"
    by code_simp
  have v: "calculateArmorClass parseFails (DUMMY_CHAR\<lparr>inventory := [] @ [buckler]\<rparr>) = Inr (Num 12)"
    by code_simp
  note inst = C6_unparseable_as_absent [OF m p1 p2, where c = DUMMY_CHAR and xs = "[]" and ys = "[buckler]"]
  have s: "itemStats parseFails scrawledCloak = JObj []"
    using inst by (simp add: itemStats_absent)
  have e: "calculateArmorClass parseFails (DUMMY_CHAR\<lparr>inventory := [] @ scrawledCloak # [buckler]\<rparr>)
     = calculateArmorClass parseFails (DUMMY_CHAR\<lparr>inventory := [] @ [buckler]\<rparr>)"
    using inst ns by blast
  show ?thesis using m p1 s e v by simp
qed

section \<open>Properties of the equip toggle\<close>








section \<open>Properties of the dice parser\<close>


























section \<open>Properties of the normalizer\<close>

lemma normalizeAIResponse_characterUpdate:
  assumes "truthy raw" and "typeofObject raw"
    and "truthy (getProp raw ''characterUpdate'')" and "typeofObject (getProp raw ''characterUpdate'')"
    and "normalizeAIResponse raw = Inr resp"
  shows "\<exists>u. normalizeCharacterUpdate (getProp raw ''characterUpdate'') = Inr u
             \<and> characterUpdate resp = Some u"
  using assms by (auto simp: normalizeAIResponse_def split: sum.splits jsval.splits)

lemma normalizeCharacterUpdate_inventory:
  assumes "truthy (getProp c ''inventory'')" and "normalizeCharacterUpdate c = Inr u"
  shows "\<exists>items. normalizeInventory (getProp c ''inventory'') = Inr items
                 \<and> u_inventory u = Some (ensureAmmo items)"
  using assms
  by (auto simp: normalizeCharacterUpdate_def inventoryUpdate_def buildCharacterUpdate_def
      split: sum.splits)

text \<open>
  C7. The normalizer reads the inventory under \<open>characterUpdate\<close>. Whenever it returns a
  response for a payload whose character update carries an inventory, the inventory of the
  response is the normalized inventory, followed by a synthesized ammunition stack of
  quantity 20 when some item name matches the ranged-weapon vocabulary and no item is of
  category ammo or matches the ammunition vocabulary. In particular this holds for the
  character update \<open>{inventory: [{name: "Longbow"}]}\<close>.
\<close>

theorem C7_ammo_inference:
  "(truthy raw \<and> typeofObject raw
      \<and> truthy (getProp raw ''characterUpdate'') \<and> typeofObject (getProp raw ''characterUpdate'')
      \<and> truthy (getProp (getProp raw ''characterUpdate'') ''inventory'')
      \<and> normalizeAIResponse raw = Inr resp \<longrightarrow>
    (\<exists>u items.
        characterUpdate resp = Some u
        \<and> normalizeInventory (getProp (getProp raw ''characterUpdate'') ''inventory'') = Inr items
        \<and> (list_ex (\<lambda>i. isRangedName (name i)) items \<and> \<not> list_ex isAmmoItem items \<longrightarrow>
             u_inventory u = Some (items @ [ammoStack]))
        \<and> (\<not> (list_ex (\<lambda>i. isRangedName (name i)) items \<and> \<not> list_ex isAmmoItem items) \<longrightarrow>
             u_inventory u = Some items)))
   \<and> category ammoStack = Ammo \<and> quantity ammoStack = Num 20
   \<and> (\<exists>r u. normalizeAIResponse
               (JObj [(''characterUpdate'', JObj [(''inventory'', JArr [JObj [(''name'', JStr ''Longbow'')]])])])
             = Inr r
          \<and> characterUpdate r = Some u
          \<and> u_inventory u = Some
               [\<lparr>name = ''Longbow'', category = Misc, description = Undefined,
                 mechanics = Val JUndef, quantity = Num 1, equipped = Val False\<rparr>,
                ammoStack])"
proof (intro conjI impI)
  assume h: "truthy raw \<and> typeofObject raw
      \<and> truthy (getProp raw ''characterUpdate'') \<and> typeofObject (getProp raw ''characterUpdate'')
      \<and> truthy (getProp (getProp raw ''characterUpdate'') ''inventory'')
      \<and> normalizeAIResponse raw = Inr resp"
  then obtain u where u: "normalizeCharacterUpdate (getProp raw ''characterUpdate'') = Inr u"
      "characterUpdate resp = Some u"
    using normalizeAIResponse_characterUpdate by blast
  with h obtain items where
      i: "normalizeInventory (getProp (getProp raw ''characterUpdate'') ''inventory'') = Inr items"
      "u_inventory u = Some (ensureAmmo items)"
    using normalizeCharacterUpdate_inventory by blast
  show "\<exists>u items.
        characterUpdate resp = Some u
        \<and> normalizeInventory (getProp (getProp raw ''characterUpdate'') ''inventory'') = Inr items
        \<and> (list_ex (\<lambda>i. isRangedName (name i)) items \<and> \<not> list_ex isAmmoItem items \<longrightarrow>
             u_inventory u = Some (items @ [ammoStack]))
        \<and> (\<not> (list_ex (\<lambda>i. isRangedName (name i)) items \<and> \<not> list_ex isAmmoItem items) \<longrightarrow>
             u_inventory u = Some items)"
    using u(2) i by (intro exI [of _ u] exI [of _ items]) (simp add: ensureAmmo_def)
next
  show "category ammoStack = Ammo" by (simp add: ammoStack_def)
  show "quantity ammoStack = Num 20" by (simp add: ammoStack_def)
next
  have "normalizeAIResponse
          (JObj [(''characterUpdate'', JObj [(''inventory'', JArr [JObj [(''name'', JStr ''Longbow'')]])])])
        = Inr \<lparr>narrative = ''...'', options = [], isGameOver = False, isLevelUp = False,
               validationError = None,
               characterUpdate = Some
                 \<lparr>u_name = None, u_race = None, u_class = None, u_hp = None, u_maxHp = None,
                  u_ac = None, u_gold = None, u_level = None, u_xp = None, u_attributes = None,
                  u_inventory = Some
                    [\<lparr>name = ''Longbow'', category = Misc, description = Undefined,
                      mechanics = Val JUndef, quantity = Num 1, equipped = Val False\<rparr>,
                     ammoStack],
                  u_conditions = None, u_skills = None, u_savingThrows = None, u_features = None,
                  u_hitDice = None, u_deathSaves = None, u_spellSlots = None\<rparr>,
               worldUpdate = None, check = None, levelUpOptions = None\<rparr>"
    by code_simp
  then show "\<exists>r u. normalizeAIResponse
               (JObj [(''characterUpdate'', JObj [(''inventory'', JArr [JObj [(''name'', JStr ''Longbow'')]])])])
             = Inr r
          \<and> characterUpdate r = Some u
          \<and> u_inventory u = Some
               [\<lparr>name = ''Longbow'', category = Misc, description = Undefined,
                 mechanics = Val JUndef, quantity = Num 1, equipped = Val False\<rparr>,
                ammoStack]"
    by simp
qed

theorem C7_ammo_inference_witness:
  "(\<exists>r u. normalizeAIResponse crossbowPayload = Inr r \<and> characterUpdate r = Some u
      \<and> u_inventory u = Some
           [\<lparr>name = ''Hand Crossbow'', category = Weapon, description = Undefined,
             mechanics = Val JUndef, quantity = Num 1, equipped = Val True\<rparr>,
            \<lparr>name = ''Rope'', category = Misc, description = Undefined,
             mechanics = Val JUndef, quantity = Num 2, equipped = Val False\<rparr>,
            ammoStack])"
proof -
  let ?items = "[\<lparr>name = ''Hand Crossbow'', category = Weapon, description = Undefined,
             mechanics = Val JUndef, quantity = Num 1, equipped = Val True\<rparr>,
            \<lparr>name = ''Rope'', category = Misc, description = Undefined,
             mechanics = Val JUndef, quantity = Num 2, equipped = Val False\<rparr>]"
  obtain r where r: "normalizeAIResponse crossbowPayload = Inr r"
  proof (cases "normalizeAIResponse crossbowPayload")
    case (Inl e)
    have "normalizeAIResponse crossbowPayload \<noteq> Inl TypeError" by code_simp
    with Inl show ?thesis by (cases e) simp
  next
    case (Inr r)
    then show ?thesis using that by blast
  qed
  have pre: "truthy crossbowPayload \<and> typeofObject crossbowPayload
      \<and> truthy (getProp crossbowPayload ''characterUpdate'')
      \<and> typeofObject (getProp crossbowPayload ''characterUpdate'')
      \<and> truthy (getProp (getProp crossbowPayload ''characterUpdate'') ''inventory'')"
    by code_simp
  have ni: "normalizeInventory (getProp (getProp crossbowPayload ''characterUpdate'') ''inventory'')
      = Inr ?items"
    by code_simp
  have rg: "list_ex (\<lambda>i. isRangedName (name i)) ?items \<and> \<not> list_ex isAmmoItem ?items"
    by code_simp
  from C7_ammo_inference [of crossbowPayload r] pre r ni rg
  obtain u where "characterUpdate r = Some u" "u_inventory u = Some (?items @ [ammoStack])"
    by auto
  with r show ?thesis by auto
qed

section \<open>Properties of the merge\<close>


lemma normalizeItem_equipped:
  "normalizeItem raw = Inr it \<Longrightarrow> equipped it = Val (truthy (getProp raw ''equipped''))"
  by (auto simp: normalizeItem_def split: sum.splits)




section \<open>Properties of the session state machine\<close>






section \<open>Properties of roll resolution\<close>

lemma rollModifier_death: "isDeathSaveCheck chk \<Longrightarrow> rollModifier ch chk = Num 0"
  by (simp add: rollModifier_def Let_def)

lemma num_add_zero: "num_add x (Num 0) = x"
  by (cases x) simp_all

lemma resolveCheck_death_save:
  assumes ds: "isDeathSaveCheck chk" and ch: "character st = Some c"
  shows "resolveCheck rnd1 rnd2 now rt st chk =
     \<lparr>stateAfterRoll =
        st\<lparr>history := history st
              @ [visualEntry now rt chk (rolledValue rnd1 rnd2 rt chk) (recordedRolls rnd1 rnd2 rt chk)
                   (Num 0) (rolledValue rnd1 rnd2 rt chk)
                   (num_le (checkDC chk) (rolledValue rnd1 rnd2 rt chk))]
              @ (if num_le (Num 3) (failures (deathSaves (fst (deathSaveStep
                       (num_le (checkDC chk) (rolledValue rnd1 rnd2 rt chk))
                       (rolledValue rnd1 rnd2 rt chk) c))))
                 then [deathEntry now] else []),
           pendingCheck := None,
           character := Some (fst (deathSaveStep
                       (num_le (checkDC chk) (rolledValue rnd1 rnd2 rt chk))
                       (rolledValue rnd1 rnd2 rt chk) c)),
           phase := (if num_le (Num 3) (failures (deathSaves (fst (deathSaveStep
                       (num_le (checkDC chk) (rolledValue rnd1 rnd2 rt chk))
                       (rolledValue rnd1 rnd2 rt chk) c))))
                     then Gameover else phase st)\<rparr>,
      followUp = followUp (resolveCheck rnd1 rnd2 now rt st chk)\<rparr>"
  using ds ch
  by (simp add: resolveCheck_def Let_def rollModifier_death num_add_zero updatedCharacter_def
      isDeadAfter_def case_prod_beta)

lemma resolveCheck_dead_no_followUp:
  assumes ds: "isDeathSaveCheck chk" and ch: "character st = Some c"
    and dead: "num_le (Num 3) (failures (deathSaves (fst (deathSaveStep
                       (num_le (checkDC chk) (rolledValue rnd1 rnd2 rt chk))
                       (rolledValue rnd1 rnd2 rt chk) c))))"
  shows "followUp (resolveCheck rnd1 rnd2 now rt st chk) = None"
  using ds ch dead
  by (simp add: resolveCheck_def Let_def rollModifier_death num_add_zero updatedCharacter_def
      isDeadAfter_def case_prod_beta)

lemma handleRoll_death_save:
  fixes rnd1 rnd2 :: "nat \<Rightarrow> rat" and rt :: rollType and chk :: checkRequest and c :: character
  assumes pc: "pendingCheck st = Some chk" and ds: "isDeathSaveCheck chk"
    and ch: "character st = Some c"
  defines "fr \<equiv> rolledValue rnd1 rnd2 rt chk"
  defines "c' \<equiv> fst (deathSaveStep (num_le (checkDC chk) fr) fr c)"
  defines "dead \<equiv> num_le (Num 3) (failures (deathSaves c'))"
  shows "character (stateAfterRoll (handleRoll rnd1 rnd2 now rt st)) = Some c'"
    and "phase (stateAfterRoll (handleRoll rnd1 rnd2 now rt st)) = (if dead then Gameover else phase st)"
    and "pendingCheck (stateAfterRoll (handleRoll rnd1 rnd2 now rt st)) = None"
    and "dead \<Longrightarrow> followUp (handleRoll rnd1 rnd2 now rt st) = None"
    and "\<exists>m. rollEntryMeta st (handleRoll rnd1 rnd2 now rt st) = Some m
           \<and> meta_roll m = fr \<and> meta_mod m = Num 0 \<and> meta_total m = fr
           \<and> meta_dc m = checkDC chk \<and> meta_success m = num_le (checkDC chk) fr"
proof -
  have h: "handleRoll rnd1 rnd2 now rt st = resolveCheck rnd1 rnd2 now rt st chk"
    using pc by (simp add: handleRoll_def)
  note r = resolveCheck_death_save [OF ds ch, of rnd1 rnd2 now rt]
  show "character (stateAfterRoll (handleRoll rnd1 rnd2 now rt st)) = Some c'"
    unfolding h by (subst r) (simp add: c'_def fr_def)
  show "phase (stateAfterRoll (handleRoll rnd1 rnd2 now rt st)) = (if dead then Gameover else phase st)"
    unfolding h by (subst r) (simp add: dead_def c'_def fr_def)
  show "pendingCheck (stateAfterRoll (handleRoll rnd1 rnd2 now rt st)) = None"
    unfolding h by (subst r) simp
  show "followUp (handleRoll rnd1 rnd2 now rt st) = None" if dead
    unfolding h using that resolveCheck_dead_no_followUp [OF ds ch, of rnd1 rnd2 rt now]
    by (simp add: dead_def c'_def fr_def)
  show "\<exists>m. rollEntryMeta st (handleRoll rnd1 rnd2 now rt st) = Some m
           \<and> meta_roll m = fr \<and> meta_mod m = Num 0 \<and> meta_total m = fr
           \<and> meta_dc m = checkDC chk \<and> meta_success m = num_le (checkDC chk) fr"
    unfolding h rollEntryMeta_def by (subst r) (simp add: visualEntry_def fr_def)
qed

lemma handleRoll_character:
  "character (stateAfterRoll (handleRoll rnd1 rnd2 now rt st)) =
     (case pendingCheck st of
        None \<Rightarrow> character st
      | Some chk \<Rightarrow>
          (case character st of
             None \<Rightarrow> None
           | Some c \<Rightarrow>
               if isDeathSaveCheck chk
               then Some (fst (deathSaveStep
                      (num_le (checkDC chk) (rolledValue rnd1 rnd2 rt chk))
                      (rolledValue rnd1 rnd2 rt chk) c))
               else Some c))"
proof (cases "pendingCheck st")
  case None
  then show ?thesis by (simp add: handleRoll_def)
next
  case (Some chk)
  show ?thesis
  proof (cases "character st")
    case None
    then show ?thesis
      using Some by (simp add: handleRoll_def resolveCheck_def Let_def updatedCharacter_def)
  next
    case (Some c)
    show ?thesis
    proof (cases "isDeathSaveCheck chk")
      case True
      from handleRoll_death_save(1) [OF \<open>pendingCheck st = Some chk\<close> True Some]
      show ?thesis using \<open>pendingCheck st = Some chk\<close> Some True by simp
    next
      case False
      then show ?thesis
        using \<open>pendingCheck st = Some chk\<close> Some
        by (simp add: handleRoll_def resolveCheck_def Let_def updatedCharacter_def)
    qed
  qed
qed

lemma Math_min_3_range:
  assumes "num_le (Num 0) x" and "num_le x (Num 3)" and "0 \<le> k"
  shows "num_le (Num 0) (Math_min (Num 3) (num_add x (Num k)))"
    and "num_le (Math_min (Num 3) (num_add x (Num k))) (Num 3)"
  using assms by (cases x; simp)+

lemma deathSaveStep_range:
  assumes "inRange03 (deathSaves c)"
  shows "inRange03 (deathSaves (fst (deathSaveStep s fr c)))"
  using assms Math_min_3_range [of "successes (deathSaves c)" 1]
    Math_min_3_range [of "failures (deathSaves c)" 1]
    Math_min_3_range [of "failures (deathSaves c)" 2]
  by (auto simp: deathSaveStep_def inRange03_def)




lemma processResponse_saved:
  assumes "normalizeAIResponse raw = Inr r"
    and "processResponse jp now isHelp injected st raw = Saved st' fl"
  shows "mergeResponse jp now injected st r = Saved st' fl"
proof -
  have "processResponse jp now isHelp injected st raw =
      (case validationError r of
         Some (c # cs) \<Rightarrow> ValidationShown (c # cs)
       | _ \<Rightarrow> if isHelp then HelpShown (narrative r) else mergeResponse jp now injected st r)"
    using assms(1) by (simp add: processResponse_def)
  with assms(2) show ?thesis
    by (cases "validationError r"; cases isHelp) (auto split: list.splits)
qed

lemma processResponse_character:
  assumes "normalizeAIResponse raw = Inr r"
    and "processResponse jp now isHelp injected st raw = Saved st' fl"
  shows "(case characterUpdate r of
            None \<Rightarrow> character st' = character st
          | Some u \<Rightarrow>
              (\<exists>a. character st'
                 = Some ((mergeCharacter (case character st of Some c \<Rightarrow> c | None \<Rightarrow> DUMMY_CHAR) u)
                          \<lparr>ac := a\<rparr>)))"
proof -
  have m: "mergeResponse jp now injected st r = Saved st' fl"
    using assms by (rule processResponse_saved)
  obtain char1 where c1: "mergedCharacter jp st (characterUpdate r) = Inr char1"
    and st': "character st' = char1"
  proof (cases "mergedCharacter jp st (characterUpdate r)")
    case (Inl e)
    with m show ?thesis by (simp add: mergeResponse_def)
  next
    case (Inr char1)
    with m have "character st' = char1"
      by (simp add: mergeResponse_def) (metis state.select_convs(3))
    with Inr show ?thesis using that by blast
  qed
  show ?thesis
  proof (cases "characterUpdate r")
    case None
    then show ?thesis using c1 st' by (simp add: mergedCharacter_def)
  next
    case (Some u)
    then obtain x where "char1 = Some ((mergeCharacter
        (case character st of Some c \<Rightarrow> c | None \<Rightarrow> DUMMY_CHAR) u)\<lparr>ac := x\<rparr>)"
      using c1 by (auto simp: mergedCharacter_def Let_def split: sum.splits)
    then show ?thesis
      using Some st' by auto
  qed
qed

lemma normalizeCharacterUpdate_deathSaves:
  assumes "normalizeCharacterUpdate c = Inr u"
  shows "u_deathSaves u =
     (if truthy (getProp c ''deathSaves'')
      then Some \<lparr>successes = coerceNumberOr (getProp (getProp c ''deathSaves'') ''successes'') (Num 0),
                 failures = coerceNumberOr (getProp (getProp c ''deathSaves'') ''failures'') (Num 0)\<rparr>
      else None)"
proof -
  from assms obtain items feats where "u = buildCharacterUpdate c items feats"
    by (auto simp: normalizeCharacterUpdate_def split: sum.splits)
  then show ?thesis
    by (simp add: buildCharacterUpdate_def)
qed

text \<open>
  C5, as stated, fails: the normalizer and the merge copy the counters of the payload as
  they are. A payload with \<open>deathSaves: {successes: 7, failures: -2}\<close> ends in a saved
  character with these counters.
\<close>

theorem C5_unclamped_counterexample:
  "savedDeathSaves (processResponse parseFails 1000 False None INITIAL_GAME_STATE deathSavesPayload)
     = Some \<lparr>successes = Num 7, failures = Num (- 2)\<rparr>
   \<and> \<not> inRange03 \<lparr>successes = Num 7, failures = Num (- 2)\<rparr>"
  by code_simp

text \<open>
  C5 (amended): roll resolution keeps both counters within \<open>[0, 3]\<close> when they were within
  \<open>[0, 3]\<close> before. The normalizer and the merge do not clamp: a counter the payload gives
  as a number is copied unchanged into the update, and the merged character has the
  counters of the update when it carries them and its previous counters otherwise.
\<close>

theorem C5_death_save_counters:
  "(character st = Some c \<and> inRange03 (deathSaves c) \<longrightarrow>
      (\<exists>c'. character (stateAfterRoll (handleRoll rnd1 rnd2 now rt st)) = Some c'
          \<and> inRange03 (deathSaves c')))
   \<and> (normalizeCharacterUpdate cu = Inr u \<and> truthy (getProp cu ''deathSaves'')
        \<and> getProp (getProp cu ''deathSaves'') ''successes'' = JNum a
        \<and> getProp (getProp cu ''deathSaves'') ''failures'' = JNum b \<longrightarrow>
      u_deathSaves u = Some \<lparr>successes = Num a, failures = Num b\<rparr>)
   \<and> (normalizeAIResponse raw = Inr r \<and> characterUpdate r = Some upd
        \<and> processResponse jp now' isHelp injected st raw = Saved st' fl \<longrightarrow>
      (\<exists>c'. character st' = Some c'
          \<and> deathSaves c' = (case u_deathSaves upd of
               Some d \<Rightarrow> d
             | None \<Rightarrow> deathSaves (case character st of Some c0 \<Rightarrow> c0 | None \<Rightarrow> DUMMY_CHAR))))"
proof (intro conjI impI)
  assume h: "character st = Some c \<and> inRange03 (deathSaves c)"
  show "\<exists>c'. character (stateAfterRoll (handleRoll rnd1 rnd2 now rt st)) = Some c'
          \<and> inRange03 (deathSaves c')"
    using h deathSaveStep_range [of c]
    by (auto simp: handleRoll_character split: option.splits)
next
  assume h: "normalizeCharacterUpdate cu = Inr u \<and> truthy (getProp cu ''deathSaves'')
        \<and> getProp (getProp cu ''deathSaves'') ''successes'' = JNum a
        \<and> getProp (getProp cu ''deathSaves'') ''failures'' = JNum b"
  then show "u_deathSaves u = Some \<lparr>successes = Num a, failures = Num b\<rparr>"
    using normalizeCharacterUpdate_deathSaves [of cu u] by (simp add: coerceNumberOr_def)
next
  assume h: "normalizeAIResponse raw = Inr r \<and> characterUpdate r = Some upd
        \<and> processResponse jp now' isHelp injected st raw = Saved st' fl"
  then obtain x where "character st'
      = Some ((mergeCharacter (case character st of Some c \<Rightarrow> c | None \<Rightarrow> DUMMY_CHAR) upd)\<lparr>ac := x\<rparr>)"
    using processResponse_character [of raw r jp now' isHelp injected st st' fl] by auto
  then show "\<exists>c'. character st' = Some c'
          \<and> deathSaves c' = (case u_deathSaves upd of
               Some d \<Rightarrow> d
             | None \<Rightarrow> deathSaves (case character st of Some c0 \<Rightarrow> c0 | None \<Rightarrow> DUMMY_CHAR))"
    by (simp add: mergeCharacter_def override_def split: option.splits)
qed

theorem C5_death_save_counters_witness:
  "inRange03 \<lparr>successes = Num 1, failures = Num 1\<rparr>
   \<and> savedDeathSaves (Saved (stateAfterRoll (handleRoll (\<lambda>i. 1 / 2) (\<lambda>i. 0) 5 Normal (dyingState 10))) False)
     = Some \<lparr>successes = Num 2, failures = Num 1\<rparr>
   \<and> inRange03 \<lparr>successes = Num 2, failures = Num 1\<rparr>"
proof -
  let ?st = "dyingState 10"
  let ?c = "DUMMY_CHAR\<lparr>hp := Num 1, deathSaves := \<lparr>successes = Num 1, failures = Num 1\<rparr>\<rparr>"
  let ?r = "handleRoll (\<lambda>i. 1 / 2) (\<lambda>i. 0) 5 Normal ?st"
  have pre: "character ?st = Some ?c \<and> inRange03 (deathSaves ?c)"
    by code_simp
  have v: "savedDeathSaves (Saved (stateAfterRoll ?r) False)
      = Some \<lparr>successes = Num 2, failures = Num 1\<rparr>"
    by code_simp
  from C5_death_save_counters [of ?st ?c "\<lambda>i. 1 / 2" "\<lambda>i. 0" 5 Normal] pre
  obtain c' where c': "character (stateAfterRoll ?r) = Some c'" "inRange03 (deathSaves c')"
    by blast
  with v have "inRange03 \<lparr>successes = Num 2, failures = Num 1\<rparr>"
    by (simp add: savedDeathSaves_def)
  moreover have "inRange03 \<lparr>successes = Num 1, failures = Num 1\<rparr>"
    using pre by simp
  ultimately show ?thesis using v by simp
qed

end
